theory Spec2Isabelle
  imports Complex_Main "HOL-Library.AList"
begin

section \<open>Records fetched from a store\<close>

text \<open>
  The WooCommerce REST API returns JSON objects; only the fields the exporter reads are
  kept. Where the source passes a field through \<^verbatim>\<open>parseInt(..) || 0\<close> or
  \<^verbatim>\<open>parseFloat(..) || 0\<close>, the field is an option: \<open>None\<close> stands for a value that
  the parser reads as NaN (absent, null or non-numeric), \<open>Some v\<close> for one it reads as
  the number \<open>v\<close>. JavaScript numbers are taken as exact (\<open>int\<close> for what
  \<^verbatim>\<open>parseInt\<close> returns, \<open>real\<close> for amounts and gauge values). A product id is a
  non-negative integer, \<open>date_created\<close> is the local calendar date that
  \<^verbatim>\<open>new Date(..)\<close> reads (\<open>None\<close> for an invalid date, \<open>month\<close> as \<^verbatim>\<open>getMonth()\<close>
  gives it), \<open>line_items\<close> is \<open>None\<close> when the field is missing, and \<open>manage_stock\<close>
  is the truth value of the field.
\<close>

record date =
  year :: int
  month :: nat
  day :: nat

record line_item =
  product_id :: nat
  name :: string
  quantity :: "int option"

record order =
  status :: string
  date_created :: "date option"
  total :: "real option"
  line_items :: "line_item list option"

record product =
  p_status :: string
  stock_quantity :: "int option"
  stock_status :: string
  manage_stock :: bool

record customer =
  customer_id :: nat

text \<open>\<^verbatim>\<open>parseInt(x) || 0\<close> and \<^verbatim>\<open>parseFloat(x) || 0\<close>: NaN and 0 are both falsy.\<close>

definition parseInt_or_0 :: "int option \<Rightarrow> int" where
  "parseInt_or_0 x = (case x of None \<Rightarrow> 0 | Some v \<Rightarrow> (if v = 0 then 0 else v))"

definition parseFloat_or_0 :: "real option \<Rightarrow> real" where
  "parseFloat_or_0 x = (case x of None \<Rightarrow> 0 | Some v \<Rightarrow> (if v = 0 then 0 else v))"

text \<open>
  \<^verbatim>\<open>statusCounts[status] = (statusCounts[status] || 0) + 1\<close> on an object that starts
  as \<^verbatim>\<open>{}\<close>. The object is an association list in insertion order, which is the
  order \<^verbatim>\<open>Object.entries\<close> walks string keys in. A status is one of the store's
  status names: not a decimal number, and not the name of a property that every object
  inherits.
\<close>

definition count_status :: "string \<Rightarrow> (string \<times> nat) list \<Rightarrow> (string \<times> nat) list" where
  "count_status s sc =
     AList.update s ((case map_of sc s of None \<Rightarrow> 0 | Some c \<Rightarrow> c) + 1) sc"

definition count_or_0 :: "(string \<times> nat) list \<Rightarrow> string \<Rightarrow> nat" where
  "count_or_0 sc s = (case map_of sc s of None \<Rightarrow> 0 | Some c \<Rightarrow> c)"

section \<open>The product reduction's loop\<close>

record product_acc =
  p_statusCounts :: "(string \<times> nat) list"
  lowStockCount :: nat
  outOfStockCount :: nat

definition lowStockThreshold :: int where
  "lowStockThreshold = 10"

definition product_acc0 :: product_acc where
  "product_acc0 = \<lparr>p_statusCounts = [], lowStockCount = 0, outOfStockCount = 0\<rparr>"

text \<open>The body of \<^verbatim>\<open>products.forEach\<close> in \<^verbatim>\<open>collectProductMetrics\<close>.\<close>

definition product_step :: "product_acc \<Rightarrow> product \<Rightarrow> product_acc" where
  "product_step acc p =
     (let stockQuantity = parseInt_or_0 (stock_quantity p);
          stockStatus = stock_status p;
          acc1 = acc\<lparr>p_statusCounts := count_status (p_status p) (p_statusCounts acc)\<rparr>
      in if stockStatus = ''outofstock'' \<or> stockQuantity = 0
         then acc1\<lparr>outOfStockCount := outOfStockCount acc1 + 1\<rparr>
         else if manage_stock p \<and> stockQuantity \<le> lowStockThreshold
         then acc1\<lparr>lowStockCount := lowStockCount acc1 + 1\<rparr>
         else acc1)"

definition reduce_products :: "product list \<Rightarrow> product_acc" where
  "reduce_products ps = foldl product_step product_acc0 ps"

section \<open>The store client\<close>

text \<open>
  A thrown JavaScript error is a value; every function that can throw returns
  \<open>js_error + 'a\<close>, with \<open>Inl\<close> for the throw.
\<close>

datatype js_error = Error string

text \<open>
  \<open>params\<close> is the optional parameter object a caller passes; \<open>query\<close> is what
  \<^verbatim>\<open>this.api.get\<close> receives after \<^verbatim>\<open>{ per_page: 100, page: 1, ...params }\<close>.
  \<open>after_opt\<close> is the instant (in milliseconds) whose ISO string the order reduction
  passes as \<^verbatim>\<open>after\<close>.
\<close>

record params =
  page_opt :: "nat option"
  per_page_opt :: "nat option"
  after_opt :: "int option"

record query =
  q_page :: nat
  q_per_page :: nat
  q_after :: "int option"

definition no_params :: params where
  "no_params = \<lparr>page_opt = None, per_page_opt = None, after_opt = None\<rparr>"

definition with_defaults :: "params \<Rightarrow> query" where
  "with_defaults ps =
     \<lparr>q_page = (case page_opt ps of None \<Rightarrow> 1 | Some p \<Rightarrow> p),
      q_per_page = (case per_page_opt ps of None \<Rightarrow> 100 | Some n \<Rightarrow> n),
      q_after = after_opt ps\<rparr>"

text \<open>
  A \<^verbatim>\<open>WooCommerceClient\<close> with the store it talks to: \<open>api_orders q\<close> is the
  outcome of \<^verbatim>\<open>this.api.get('orders', q)\<close> (the response's \<^verbatim>\<open>data\<close>, or the
  error thrown), and likewise for the other endpoints. Within one reduction no query is
  sent twice, so a function of the query describes every store.
\<close>

record client =
  storeId :: string
  storeName :: string
  currency :: string
  api_orders :: "query \<Rightarrow> js_error + order list"
  api_products :: "query \<Rightarrow> js_error + product list"
  api_customers :: "query \<Rightarrow> js_error + customer list"
  api_system_status :: "js_error + unit"

text \<open>
  A fetch returns its outcome and the queries it sent, in order. \<^verbatim>\<open>getOrders\<close>,
  \<^verbatim>\<open>getProducts\<close> and \<^verbatim>\<open>getCustomers\<close> catch an error only to log and rethrow it.
\<close>

type_synonym 'a fetch = "(js_error + 'a) \<times> query list"

definition getOrders :: "client \<Rightarrow> params \<Rightarrow> order list fetch" where
  "getOrders c ps = (let defaultParams = with_defaults ps in (api_orders c defaultParams, [defaultParams]))"

definition getProducts :: "client \<Rightarrow> params \<Rightarrow> product list fetch" where
  "getProducts c ps = (let defaultParams = with_defaults ps in (api_products c defaultParams, [defaultParams]))"

definition getCustomers :: "client \<Rightarrow> params \<Rightarrow> customer list fetch" where
  "getCustomers c ps = (let defaultParams = with_defaults ps in (api_customers c defaultParams, [defaultParams]))"

text \<open>
  The \<^verbatim>\<open>while (hasMore)\<close> loop of \<^verbatim>\<open>getAllOrders\<close> and \<^verbatim>\<open>getAllProducts\<close>; the two
  bodies differ only in the page fetch they call. \<open>pg\<close> is \<^verbatim>\<open>page\<close>, \<open>acc\<close> the
  array filled so far, \<open>calls\<close> the queries sent so far.
\<close>

function paginate ::
  "(params \<Rightarrow> 'a list fetch) \<Rightarrow> params \<Rightarrow> nat \<Rightarrow> 'a list \<Rightarrow> query list \<Rightarrow> 'a list fetch" where
  "paginate getPage ps pg acc calls =
     (case getPage (ps\<lparr>page_opt := Some pg, per_page_opt := Some 100\<rparr>) of
        (Inl e, cs) \<Rightarrow> (Inl e, calls @ cs)
      | (Inr items, cs) \<Rightarrow>
          if length items = 0 then (Inr acc, calls @ cs)
          else if pg + 1 > 100 then (Inr (acc @ items), calls @ cs)
          else paginate getPage ps (pg + 1) (acc @ items) (calls @ cs))"
  by pat_completeness auto
termination
  by (relation "measure (\<lambda>(getPage, ps, pg, acc, calls). 101 - pg)") auto

definition getAllOrders :: "client \<Rightarrow> params \<Rightarrow> order list fetch" where
  "getAllOrders c ps = paginate (getOrders c) ps 1 [] []"

definition getAllProducts :: "client \<Rightarrow> params \<Rightarrow> product list fetch" where
  "getAllProducts c ps = paginate (getProducts c) ps 1 [] []"

text \<open>
  \<^verbatim>\<open>testConnection\<close>, with the log lines it writes. Logging has no effect on any
  other result, so only this function carries its log.
\<close>

datatype level = Info | Warn | Err | Debug

definition testConnection :: "client \<Rightarrow> (js_error + bool) \<times> (level \<times> string) list" where
  "testConnection c =
     (let log0 = [(Info, ''Testing connection for store '' @ storeId c)]
      in case api_system_status c of
           Inr u \<Rightarrow>
             (Inr True, log0 @ [(Info, ''Connection test successful for store '' @ storeId c)])
         | Inl (Error msg) \<Rightarrow>
             (Inr False,
              log0 @ [(Err, ''Connection test failed for store '' @ storeId c @ '': '' @ msg)]))"

section \<open>Counting customers\<close>

text \<open>
  The \<^verbatim>\<open>while (hasMore && page <= 10)\<close> loop of \<^verbatim>\<open>collectCustomerMetrics\<close>, entered
  with \<^verbatim>\<open>page = 2\<close> when the first page of 100 is full.
\<close>

function customer_pages :: "client \<Rightarrow> nat \<Rightarrow> nat \<Rightarrow> query list \<Rightarrow> nat fetch" where
  "customer_pages c pg totalCustomers calls =
     (if pg \<le> 10 then
        (case getCustomers c (no_params\<lparr>per_page_opt := Some 100, page_opt := Some pg\<rparr>) of
           (Inl e, cs) \<Rightarrow> (Inl e, calls @ cs)
         | (Inr pageCustomers, cs) \<Rightarrow>
             if length pageCustomers = 0 then (Inr totalCustomers, calls @ cs)
             else customer_pages c (pg + 1) (totalCustomers + length pageCustomers) (calls @ cs))
      else (Inr totalCustomers, calls))"
  by pat_completeness auto
termination
  by (relation "measure (\<lambda>(c, pg, totalCustomers, calls). 11 - pg)") auto

text \<open>The body of the inner \<^verbatim>\<open>try\<close>: the first page of 100, then the loop.\<close>

definition full_customer_count :: "client \<Rightarrow> nat fetch" where
  "full_customer_count c =
     (case getCustomers c (no_params\<lparr>per_page_opt := Some 100\<rparr>) of
        (Inl e, cs) \<Rightarrow> (Inl e, cs)
      | (Inr allCustomers, cs) \<Rightarrow>
          if length allCustomers = 100 then customer_pages c 2 (length allCustomers) cs
          else (Inr (length allCustomers), cs))"

text \<open>
  The inner \<^verbatim>\<open>try\<close>/\<^verbatim>\<open>catch\<close>: \<open>customers\<close> is the result of the earlier
  \<^verbatim>\<open>getCustomers({ per_page: 1 })\<close>. The result is \<^verbatim>\<open>totalCustomers\<close>; it cannot
  throw.
\<close>

definition count_customers :: "client \<Rightarrow> customer list \<Rightarrow> nat \<times> query list" where
  "count_customers c customers =
     (case full_customer_count c of
        (Inl e, cs) \<Rightarrow> (length customers, cs)
      | (Inr totalCustomers, cs) \<Rightarrow> (totalCustomers, cs))"

section \<open>The metric registry\<close>

text \<open>
  The collector's eighteen metrics, named after the fields that hold them and listed in
  the order \<^verbatim>\<open>initializeMetrics\<close> registers them. A labelled value of a metric is a
  cell keyed by the metric and the label set; the registry lists its cells in the order
  of their first write.
\<close>

datatype metric =
    totalOrdersGauge | ordersByStatusGauge | totalRevenueGauge | revenueTodayGauge
  | revenueThisMonthGauge | totalProductsGauge | lowStockProductsGauge
  | outOfStockProductsGauge | totalCustomersGauge | averageOrderValueGauge
  | pendingOrdersGauge | failedOrdersGauge | processingOrdersGauge | topProductsSoldGauge
  | lastScrapeSuccessGauge | scrapeErrorsCounter | scrapeDurationGauge
  | apiResponseTimeGauge

fun metric_name :: "metric \<Rightarrow> string" where
  "metric_name totalOrdersGauge = ''woocommerce_total_orders''"
| "metric_name ordersByStatusGauge = ''woocommerce_orders_by_status''"
| "metric_name totalRevenueGauge = ''woocommerce_total_revenue''"
| "metric_name revenueTodayGauge = ''woocommerce_revenue_today''"
| "metric_name revenueThisMonthGauge = ''woocommerce_revenue_this_month''"
| "metric_name totalProductsGauge = ''woocommerce_total_products''"
| "metric_name lowStockProductsGauge = ''woocommerce_low_stock_products''"
| "metric_name outOfStockProductsGauge = ''woocommerce_out_of_stock_products''"
| "metric_name totalCustomersGauge = ''woocommerce_total_customers''"
| "metric_name averageOrderValueGauge = ''woocommerce_average_order_value''"
| "metric_name pendingOrdersGauge = ''woocommerce_pending_orders''"
| "metric_name failedOrdersGauge = ''woocommerce_failed_orders''"
| "metric_name processingOrdersGauge = ''woocommerce_processing_orders''"
| "metric_name topProductsSoldGauge = ''woocommerce_top_products_sold''"
| "metric_name lastScrapeSuccessGauge = ''woocommerce_last_scrape_success''"
| "metric_name scrapeErrorsCounter = ''woocommerce_scrape_errors_total''"
| "metric_name scrapeDurationGauge = ''woocommerce_scrape_duration_seconds''"
| "metric_name apiResponseTimeGauge = ''woocommerce_api_response_time_seconds''"

definition registered :: "metric list" where
  "registered =
     [totalOrdersGauge, ordersByStatusGauge, totalRevenueGauge, revenueTodayGauge,
      revenueThisMonthGauge, totalProductsGauge, lowStockProductsGauge,
      outOfStockProductsGauge, totalCustomersGauge, averageOrderValueGauge,
      pendingOrdersGauge, failedOrdersGauge, processingOrdersGauge, topProductsSoldGauge,
      lastScrapeSuccessGauge, scrapeErrorsCounter, scrapeDurationGauge,
      apiResponseTimeGauge]"

type_synonym labels = "(string \<times> string) list"

type_synonym registry = "((metric \<times> labels) \<times> real) list"

text \<open>\<^verbatim>\<open>gauge.set(labels, value)\<close> overwrites the cell; \<^verbatim>\<open>counter.inc(labels)\<close> adds 1
  to it, starting from 0.\<close>

definition value_of :: "registry \<Rightarrow> metric \<times> labels \<Rightarrow> real option" where
  "value_of reg k = map_of reg k"

definition gauge_set :: "metric \<Rightarrow> labels \<Rightarrow> real \<Rightarrow> registry \<Rightarrow> registry" where
  "gauge_set m ls v reg = AList.update (m, ls) v reg"

definition counter_inc :: "metric \<Rightarrow> labels \<Rightarrow> registry \<Rightarrow> registry" where
  "counter_inc m ls reg =
     AList.update (m, ls) ((case map_of reg (m, ls) of None \<Rightarrow> 0 | Some v \<Rightarrow> v) + 1) reg"

definition counter_value :: "registry \<Rightarrow> metric \<times> labels \<Rightarrow> real" where
  "counter_value reg k = (case value_of reg k of None \<Rightarrow> 0 | Some v \<Rightarrow> v)"

text \<open>
  \<^verbatim>\<open>getMetrics\<close> renders the registry, which is the work of the metrics library: one
  sample (metric name, label set, value) per cell, metric by metric in registration
  order; the help and type lines and the default label are left out.
  \<^verbatim>\<open>clearMetrics\<close> clears the registry and registers fresh metrics, which hold no
  cell.
\<close>

definition getMetrics :: "registry \<Rightarrow> (string \<times> labels \<times> real) list" where
  "getMetrics reg =
     concat (map (\<lambda>m. map (\<lambda>(k, v). (metric_name m, snd k, v))
                          (filter (\<lambda>(k, v). fst k = m) reg)) registered)"

definition clearMetrics :: "registry \<Rightarrow> registry" where
  "clearMetrics reg = []"

text \<open>A statement sequence that may throw and writes to the registry; \<^verbatim>\<open>try\<close> with
  its \<^verbatim>\<open>catch\<close>, which sees the writes made before the throw.\<close>

type_synonym 'a action = "registry \<Rightarrow> (js_error + 'a) \<times> registry"

definition try_catch :: "'a action \<Rightarrow> (js_error \<Rightarrow> 'a action) \<Rightarrow> 'a action" where
  "try_catch body handler reg =
     (case body reg of
        (Inl error, reg1) \<Rightarrow> handler error reg1
      | (Inr x, reg1) \<Rightarrow> (Inr x, reg1))"

text \<open>
  \<^verbatim>\<open>Promise.allSettled\<close> waits for every promise and never rejects. The promises
  are run one after the other here: the three reductions of a store write to disjoint
  cells, and the stores of a cycle do too, so the order of their writes does not change
  any cell.
\<close>

fun allSettled :: "'a action list \<Rightarrow> registry \<Rightarrow> (js_error + 'a) list \<times> registry" where
  "allSettled [] reg = ([], reg)"
| "allSettled (t # ts) reg =
     (case t reg of (r, reg1) \<Rightarrow>
        (case allSettled ts reg1 of (rs, reg2) \<Rightarrow> (r # rs, reg2)))"

section \<open>The readings of the clock\<close>

text \<open>
  Every \<^verbatim>\<open>Date.now()\<close> and \<^verbatim>\<open>new Date()\<close> of one store's collection, in
  milliseconds or as a local calendar date. \<open>month\<close> is \<^verbatim>\<open>getMonth()\<close>.
\<close>

record clock =
  store_start :: int
  store_done :: int
  store_done2 :: int
  orders_start :: int
  orders_after_now :: int
  orders_fetched :: int
  today :: date
  thisMonth_year :: int
  thisMonth_month :: nat
  products_start :: int
  products_fetched :: int
  customers_start :: int
  customers_fetched :: int

text \<open>Decimal \<^verbatim>\<open>toString()\<close> of a number.\<close>

function toString_nat :: "nat \<Rightarrow> string" where
  "toString_nat n =
     (if n < 10 then [''0123456789'' ! n]
      else toString_nat (n div 10) @ [''0123456789'' ! (n mod 10)])"
  by pat_completeness auto
termination
  by (relation "measure (\<lambda>n. n)") auto

definition toString_int :: "int \<Rightarrow> string" where
  "toString_int i = (if i < 0 then ''-'' @ toString_nat (nat (- i)) else toString_nat (nat i))"

definition store_labels :: "client \<Rightarrow> labels" where
  "store_labels c = [(''store_id'', storeId c), (''store_name'', storeName c)]"

definition error_labels :: "client \<Rightarrow> string \<Rightarrow> labels" where
  "error_labels c error_type = store_labels c @ [(''error_type'', error_type)]"

definition endpoint_labels :: "client \<Rightarrow> string \<Rightarrow> labels" where
  "endpoint_labels c endpoint = store_labels c @ [(''endpoint'', endpoint)]"

section \<open>The order reduction\<close>

record order_acc =
  statusCounts :: "(string \<times> nat) list"
  totalRevenue :: real
  revenueToday :: real
  revenueThisMonth :: real
  totalOrderValue :: real
  productSales :: "(nat \<times> string \<times> int) list"

definition order_acc0 :: order_acc where
  "order_acc0 =
     \<lparr>statusCounts = [], totalRevenue = 0, revenueToday = 0, revenueThisMonth = 0,
      totalOrderValue = 0, productSales = []\<rparr>"

text \<open>
  \<^verbatim>\<open>orderDateString === today\<close> compares two \<^verbatim>\<open>toDateString()\<close> texts, which are
  equal when year, month and day are; \<^verbatim>\<open>orderMonth === thisMonth\<close> compares year and
  month. An order whose \<^verbatim>\<open>date_created\<close> does not parse (\<open>None\<close>) matches neither.
\<close>

definition same_day :: "date option \<Rightarrow> clock \<Rightarrow> bool" where
  "same_day orderDate clk =
     (case orderDate of None \<Rightarrow> False
      | Some d \<Rightarrow> year d = year (today clk) \<and> month d = month (today clk)
                    \<and> day d = day (today clk))"

definition same_month :: "date option \<Rightarrow> clock \<Rightarrow> bool" where
  "same_month orderDate clk =
     (case orderDate of None \<Rightarrow> False
      | Some d \<Rightarrow> year d = thisMonth_year clk \<and> month d = thisMonth_month clk)"

text \<open>The body of \<^verbatim>\<open>order.line_items.forEach\<close>: \<open>productSales\<close> maps a product id
  to the name first seen for it and the quantity sold.\<close>

definition line_step :: "(nat \<times> string \<times> int) list \<Rightarrow> line_item \<Rightarrow> (nat \<times> string \<times> int) list" where
  "line_step sales item =
     (let productId = product_id item;
          entry = (case map_of sales productId of None \<Rightarrow> (name item, 0) | Some d \<Rightarrow> d)
      in AList.update productId (fst entry, snd entry + parseInt_or_0 (quantity item)) sales)"

text \<open>The body of \<^verbatim>\<open>orders.forEach\<close>.\<close>

definition order_step :: "clock \<Rightarrow> order_acc \<Rightarrow> order \<Rightarrow> order_acc" where
  "order_step clk acc ord =
     (let orderTotal = parseFloat_or_0 (total ord);
          acc1 = acc\<lparr>statusCounts := count_status (status ord) (statusCounts acc)\<rparr>;
          acc2 = (if status ord = ''completed''
                  then acc1\<lparr>totalRevenue := totalRevenue acc1 + orderTotal,
                            totalOrderValue := totalOrderValue acc1 + orderTotal,
                            revenueToday := (if same_day (date_created ord) clk
                                             then revenueToday acc1 + orderTotal
                                             else revenueToday acc1),
                            revenueThisMonth := (if same_month (date_created ord) clk
                                                 then revenueThisMonth acc1 + orderTotal
                                                 else revenueThisMonth acc1)\<rparr>
                  else acc1)
      in case line_items ord of
           None \<Rightarrow> acc2
         | Some items \<Rightarrow> acc2\<lparr>productSales := foldl line_step (productSales acc2) items\<rparr>)"

definition reduce_orders :: "clock \<Rightarrow> order list \<Rightarrow> order_acc" where
  "reduce_orders clk orders = foldl (order_step clk) order_acc0 orders"

text \<open>\<^verbatim>\<open>completedOrders > 0 ? totalOrderValue / completedOrders : 0\<close>.\<close>

definition avgOrderValue :: "order_acc \<Rightarrow> real" where
  "avgOrderValue acc =
     (let completedOrders = count_or_0 (statusCounts acc) ''completed''
      in if completedOrders > 0 then totalOrderValue acc / real completedOrders else 0)"

text \<open>
  \<^verbatim>\<open>Object.entries(productSales).sort(..).slice(0, 10)\<close>: the keys are decimal product
  ids, which \<^verbatim>\<open>Object.entries\<close> walks in ascending numeric order; the sort is stable
  and descending in the quantity.
\<close>

definition topProducts :: "(nat \<times> string \<times> int) list \<Rightarrow> (nat \<times> string \<times> int) list" where
  "topProducts sales = take 10 (sort_key (\<lambda>e. - snd (snd e)) (sort_key fst sales))"

definition status_labels :: "client \<Rightarrow> string \<Rightarrow> labels" where
  "status_labels c s = store_labels c @ [(''status'', s), (''currency'', currency c)]"

definition currency_labels :: "client \<Rightarrow> labels" where
  "currency_labels c = store_labels c @ [(''currency'', currency c)]"

definition period_labels :: "client \<Rightarrow> labels" where
  "period_labels c = store_labels c @ [(''currency'', currency c), (''period'', ''all_time'')]"

definition product_labels :: "client \<Rightarrow> nat \<times> string \<times> int \<Rightarrow> labels" where
  "product_labels c e =
     store_labels c @ [(''product_id'', toString_nat (fst e)), (''product_name'', fst (snd e))]"

text \<open>The statements of \<^verbatim>\<open>collectOrderMetrics\<close> after the fetch; none of them throws.\<close>

definition order_writes :: "clock \<Rightarrow> client \<Rightarrow> order list \<Rightarrow> registry \<Rightarrow> registry" where
  "order_writes clk c orders reg =
     (let apiDuration = real_of_int (orders_fetched clk - orders_start clk) / 1000;
          reg1 = gauge_set apiResponseTimeGauge (endpoint_labels c ''orders'') apiDuration reg;
          acc = reduce_orders clk orders;
          reg2 = gauge_set totalOrdersGauge (status_labels c ''all'') (real (length orders)) reg1;
          reg3 = foldl (\<lambda>r e. gauge_set ordersByStatusGauge (status_labels c (fst e)) (real (snd e)) r)
                       reg2 (statusCounts acc);
          reg4 = gauge_set pendingOrdersGauge (store_labels c)
                   (real (count_or_0 (statusCounts acc) ''pending'')) reg3;
          reg5 = gauge_set failedOrdersGauge (store_labels c)
                   (real (count_or_0 (statusCounts acc) ''failed'')) reg4;
          reg6 = gauge_set processingOrdersGauge (store_labels c)
                   (real (count_or_0 (statusCounts acc) ''processing'')) reg5;
          reg7 = gauge_set totalRevenueGauge (period_labels c) (totalRevenue acc) reg6;
          reg8 = gauge_set revenueTodayGauge (currency_labels c) (revenueToday acc) reg7;
          reg9 = gauge_set revenueThisMonthGauge (currency_labels c) (revenueThisMonth acc) reg8;
          reg10 = gauge_set averageOrderValueGauge (period_labels c) (avgOrderValue acc) reg9
      in foldl (\<lambda>r e. gauge_set topProductsSoldGauge (product_labels c e) (real_of_int (snd (snd e))) r)
               reg10 (topProducts (productSales acc)))"

definition order_params :: "clock \<Rightarrow> params" where
  "order_params clk = no_params\<lparr>after_opt := Some (orders_after_now clk - 90 * 24 * 60 * 60 * 1000)\<rparr>"

definition collectOrderMetrics :: "clock \<Rightarrow> client \<Rightarrow> unit action" where
  "collectOrderMetrics clk c =
     try_catch
       (\<lambda>reg. case fst (getAllOrders c (order_params clk)) of
                 Inl error \<Rightarrow> (Inl error, reg)
               | Inr orders \<Rightarrow> (Inr (), order_writes clk c orders reg))
       (\<lambda>error reg. (Inl error, counter_inc scrapeErrorsCounter (error_labels c ''orders'') reg))"

section \<open>The product reduction\<close>

definition product_status_labels :: "client \<Rightarrow> string \<Rightarrow> labels" where
  "product_status_labels c s = store_labels c @ [(''status'', s)]"

definition threshold_labels :: "client \<Rightarrow> labels" where
  "threshold_labels c = store_labels c @ [(''threshold'', toString_int lowStockThreshold)]"

definition product_writes :: "clock \<Rightarrow> client \<Rightarrow> product list \<Rightarrow> registry \<Rightarrow> registry" where
  "product_writes clk c products reg =
     (let apiDuration = real_of_int (products_fetched clk - products_start clk) / 1000;
          reg1 = gauge_set apiResponseTimeGauge (endpoint_labels c ''products'') apiDuration reg;
          acc = reduce_products products;
          reg2 = gauge_set totalProductsGauge (product_status_labels c ''all'')
                   (real (length products)) reg1;
          reg3 = foldl (\<lambda>r e. gauge_set totalProductsGauge (product_status_labels c (fst e)) (real (snd e)) r)
                       reg2 (p_statusCounts acc);
          reg4 = gauge_set lowStockProductsGauge (threshold_labels c) (real (lowStockCount acc)) reg3
      in gauge_set outOfStockProductsGauge (store_labels c) (real (outOfStockCount acc)) reg4)"

definition collectProductMetrics :: "clock \<Rightarrow> client \<Rightarrow> unit action" where
  "collectProductMetrics clk c =
     try_catch
       (\<lambda>reg. case fst (getAllProducts c no_params) of
                 Inl error \<Rightarrow> (Inl error, reg)
               | Inr products \<Rightarrow> (Inr (), product_writes clk c products reg))
       (\<lambda>error reg. (Inl error, counter_inc scrapeErrorsCounter (error_labels c ''products'') reg))"

section \<open>The customer reduction\<close>

definition collectCustomerMetrics :: "clock \<Rightarrow> client \<Rightarrow> unit action" where
  "collectCustomerMetrics clk c =
     try_catch
       (\<lambda>reg. case fst (getCustomers c (no_params\<lparr>per_page_opt := Some 1\<rparr>)) of
                 Inl error \<Rightarrow> (Inl error, reg)
               | Inr customers \<Rightarrow>
                   (let apiDuration = real_of_int (customers_fetched clk - customers_start clk) / 1000;
                        reg1 = gauge_set apiResponseTimeGauge (endpoint_labels c ''customers'')
                                 apiDuration reg;
                        totalCustomers = fst (count_customers c customers)
                    in (Inr (), gauge_set totalCustomersGauge (store_labels c)
                                  (real totalCustomers) reg1)))
       (\<lambda>error reg. (Inl error, counter_inc scrapeErrorsCounter (error_labels c ''customers'') reg))"

section \<open>One store, and all stores\<close>

definition collectStoreMetrics :: "clock \<Rightarrow> client \<Rightarrow> unit action" where
  "collectStoreMetrics clk c =
     try_catch
       (\<lambda>reg. case allSettled [collectOrderMetrics clk c, collectProductMetrics clk c,
                                collectCustomerMetrics clk c] reg of
                 (results, reg1) \<Rightarrow>
                   (let reg2 = gauge_set lastScrapeSuccessGauge (store_labels c)
                                 (real_of_int (store_done clk div 1000)) reg1;
                        duration = real_of_int (store_done2 clk - store_start clk) / 1000
                    in (Inr (), gauge_set scrapeDurationGauge (store_labels c) duration reg2)))
       (\<lambda>error reg. (Inl error, counter_inc scrapeErrorsCounter (error_labels c ''general'') reg))"

text \<open>
  The exporter: \<^verbatim>\<open>storeClients\<close> is a \<^verbatim>\<open>Map\<close> from store id to client, in insertion
  order; \<open>register\<close> is the registry of its \<^verbatim>\<open>metricsCollector\<close>.
\<close>

record app =
  storeClients :: "(string \<times> client) list"
  register :: registry
  lastCollectionTime :: "int option"

record collection_result =
  r_storeId :: string
  success :: bool
  error_message :: "string option"

text \<open>The function mapped over \<^verbatim>\<open>storeClients.entries()\<close>; it catches whatever
  \<^verbatim>\<open>collectStoreMetrics\<close> throws. \<open>clocks\<close> gives each store its clock readings.\<close>

definition collect_one ::
  "(string \<Rightarrow> clock) \<Rightarrow> string \<times> client \<Rightarrow> registry \<Rightarrow> (js_error + collection_result) \<times> registry" where
  "collect_one clocks entry reg =
     (case collectStoreMetrics (clocks (fst entry)) (snd entry) reg of
        (Inr u, reg1) \<Rightarrow>
          (Inr \<lparr>r_storeId = fst entry, success = True, error_message = None\<rparr>, reg1)
      | (Inl (Error msg), reg1) \<Rightarrow>
          (Inr \<lparr>r_storeId = fst entry, success = False, error_message = Some msg\<rparr>, reg1))"

text \<open>
  \<^verbatim>\<open>collectAllMetrics\<close> returns nothing; the model returns the pair of counts it logs
  (\<open>None\<close> on the early return) and the exporter's new state. \<open>now\<close> is the clock at the
  end of the cycle.
\<close>

definition collectAllMetrics ::
  "(string \<Rightarrow> clock) \<Rightarrow> int \<Rightarrow> app \<Rightarrow> (js_error + (nat \<times> nat) option) \<times> app" where
  "collectAllMetrics clocks now a =
     (if length (storeClients a) = 0 then (Inr None, a)
      else
        (case allSettled (map (collect_one clocks) (storeClients a)) (register a) of
           (results, reg1) \<Rightarrow>
             (let completed = length (filter (\<lambda>r. case r of Inl e \<Rightarrow> False | Inr v \<Rightarrow> success v) results);
                  failed = length results - completed
              in (Inr (Some (completed, failed)),
                  a\<lparr>register := reg1, lastCollectionTime := Some now\<rparr>))))"

section \<open>Notions used to state the properties\<close>

text \<open>The two stock conditions of the product loop, in the order the loop tests them.\<close>

definition is_out_of_stock :: "product \<Rightarrow> bool" where
  "is_out_of_stock p = (stock_status p = ''outofstock'' \<or> parseInt_or_0 (stock_quantity p) = 0)"

definition is_low_stock :: "product \<Rightarrow> bool" where
  "is_low_stock p =
     (\<not> is_out_of_stock p \<and> manage_stock p \<and> parseInt_or_0 (stock_quantity p) \<le> 10)"

definition completed :: "order list \<Rightarrow> order list" where
  "completed orders = filter (\<lambda>ord. status ord = ''completed'') orders"

text \<open>What the paginated fetch passes down for page \<open>pg\<close>, and the query that results.\<close>

definition page_params :: "params \<Rightarrow> nat \<Rightarrow> params" where
  "page_params ps pg = ps\<lparr>page_opt := Some pg, per_page_opt := Some 100\<rparr>"

definition page_query :: "params \<Rightarrow> nat \<Rightarrow> query" where
  "page_query ps pg = \<lparr>q_page = pg, q_per_page = 100, q_after = after_opt ps\<rparr>"


text \<open>The metrics each reduction sets, apart from its API response time and its error
  counter.\<close>

definition order_metrics :: "metric set" where
  "order_metrics =
     {totalOrdersGauge, ordersByStatusGauge, pendingOrdersGauge, failedOrdersGauge,
      processingOrdersGauge, totalRevenueGauge, revenueTodayGauge, revenueThisMonthGauge,
      averageOrderValueGauge, topProductsSoldGauge}"

definition product_metrics :: "metric set" where
  "product_metrics = {totalProductsGauge, lowStockProductsGauge, outOfStockProductsGauge}"

definition customer_metrics :: "metric set" where
  "customer_metrics = {totalCustomersGauge}"

section \<open>Example records and stores\<close>

definition product_gone :: product where
  "product_gone = \<lparr>p_status = ''publish'', stock_quantity = Some 0,
     stock_status = ''outofstock'', manage_stock = True\<rparr>"

definition product_few :: product where
  "product_few = \<lparr>p_status = ''publish'', stock_quantity = Some 4,
     stock_status = ''instock'', manage_stock = True\<rparr>"

definition product_untracked :: product where
  "product_untracked = \<lparr>p_status = ''publish'', stock_quantity = None,
     stock_status = ''instock'', manage_stock = False\<rparr>"

definition order_done :: order where
  "order_done = \<lparr>status = ''completed'', date_created = Some \<lparr>year = 2024, month = 4, day = 2\<rparr>,
     total = Some 30,
     line_items = Some [\<lparr>product_id = 7, name = ''Mug'', quantity = Some 2\<rparr>]\<rparr>"

definition order_open :: order where
  "order_open = \<lparr>status = ''pending'', date_created = None, total = Some 12,
     line_items = None\<rparr>"

definition clock0 :: clock where
  "clock0 = \<lparr>store_start = 1000, store_done = 4500, store_done2 = 5000, orders_start = 1000,
     orders_after_now = 1000, orders_fetched = 2000,
     today = \<lparr>year = 2024, month = 4, day = 2\<rparr>, thisMonth_year = 2024, thisMonth_month = 4,
     products_start = 1000, products_fetched = 3000, customers_start = 1000,
     customers_fetched = 4000\<rparr>"

text \<open>A store with one page of each record type.\<close>

definition shop :: client where
  "shop = \<lparr>storeId = ''s1'', storeName = ''Shop'', currency = ''USD'',
     api_orders = (\<lambda>q. if q_page q = 1 then Inr [order_done, order_open] else Inr []),
     api_products = (\<lambda>q. if q_page q = 1 then Inr [product_gone, product_few] else Inr []),
     api_customers = (\<lambda>q. if q_page q = 1 then Inr [\<lparr>customer_id = 1\<rparr>] else Inr []),
     api_system_status = Inr ()\<rparr>"

text \<open>A store whose pages are never empty.\<close>

definition shop_endless :: client where
  "shop_endless = shop\<lparr>api_orders := (\<lambda>q. Inr [order_open]),
     api_products := (\<lambda>q. Inr [product_few])\<rparr>"

definition shop_open_only :: client where
  "shop_open_only = shop\<lparr>api_orders := (\<lambda>q. if q_page q = 1 then Inr [order_open] else Inr [])\<rparr>"

text \<open>A store that answers nothing.\<close>

definition shop_down :: client where
  "shop_down = shop\<lparr>api_orders := (\<lambda>q. Inl (Error ''timeout'')),
     api_products := (\<lambda>q. Inl (Error ''timeout'')),
     api_customers := (\<lambda>q. Inl (Error ''timeout'')),
     api_system_status := Inl (Error ''timeout'')\<rparr>"




section \<open>Facts about the registry and the loops\<close>

declare paginate.simps [simp del] customer_pages.simps [simp del] toString_nat.simps [simp del]

lemma value_of_gauge_set:
  "value_of (gauge_set m ls v reg) k = (if k = (m, ls) then Some v else value_of reg k)"
  by (simp add: value_of_def gauge_set_def update_conv')

lemma value_of_counter_inc:
  "value_of (counter_inc m ls reg) k =
     (if k = (m, ls) then Some (counter_value reg (m, ls) + 1) else value_of reg k)"
  by (simp add: value_of_def counter_inc_def counter_value_def update_conv')

lemma value_of_foldl_other:
  "fst k \<noteq> m \<Longrightarrow>
   value_of (foldl (\<lambda>r e. gauge_set m (f e) (g e) r) reg xs) k = value_of reg k"
  by (induction xs arbitrary: reg) (auto simp: value_of_gauge_set)


lemma statusCounts_order_step:
  "statusCounts (order_step clk acc ord) = count_status (status ord) (statusCounts acc)"
  by (simp add: order_step_def Let_def split: option.splits)






lemma collectOrderMetrics_ok:
  "fst (getAllOrders c (order_params clk)) = Inr orders \<Longrightarrow>
   collectOrderMetrics clk c reg = (Inr (), order_writes clk c orders reg)"
  by (simp add: collectOrderMetrics_def try_catch_def)

lemma collectOrderMetrics_fail:
  "fst (getAllOrders c (order_params clk)) = Inl e \<Longrightarrow>
   collectOrderMetrics clk c reg =
     (Inl e, counter_inc scrapeErrorsCounter (error_labels c ''orders'') reg)"
  by (simp add: collectOrderMetrics_def try_catch_def)

lemma outOfStockCount_step:
  "outOfStockCount (product_step acc p) = outOfStockCount acc + (if is_out_of_stock p then 1 else 0)"
  by (simp add: product_step_def Let_def is_out_of_stock_def)

lemma lowStockCount_step:
  "lowStockCount (product_step acc p) = lowStockCount acc + (if is_low_stock p then 1 else 0)"
  by (simp add: product_step_def Let_def is_low_stock_def is_out_of_stock_def lowStockThreshold_def)

lemma counts_foldl_product_step:
  "outOfStockCount (foldl product_step acc ps) = outOfStockCount acc + length (filter is_out_of_stock ps)
   \<and> lowStockCount (foldl product_step acc ps) = lowStockCount acc + length (filter is_low_stock ps)"
  by (induction ps arbitrary: acc) (simp_all add: outOfStockCount_step lowStockCount_step)

lemma paginate_full:
  assumes "\<forall>i. pg \<le> i \<and> i \<le> 100 \<longrightarrow> getPage (page_params ps i) = (Inr (pages i), cs i) \<and> pages i \<noteq> []"
    and "pg \<le> 100"
  shows "paginate getPage ps pg acc calls =
           (Inr (acc @ concat (map pages [pg..<101])), calls @ concat (map cs [pg..<101]))"
  using assms
proof (induction "100 - pg" arbitrary: pg acc calls)
  case 0
  then have "pg = 100" by simp
  with 0 have "getPage (page_params ps 100) = (Inr (pages 100), cs 100)" "pages 100 \<noteq> []"
    by auto
  with \<open>pg = 100\<close> show ?case
    by (subst paginate.simps) (simp add: page_params_def)
next
  case (Suc n)
  then have lt: "pg < 100" by simp
  from Suc.prems have here: "getPage (page_params ps pg) = (Inr (pages pg), cs pg)" "pages pg \<noteq> []"
    by auto
  have rest: "paginate getPage ps (pg + 1) (acc @ pages pg) (calls @ cs pg) =
      (Inr ((acc @ pages pg) @ concat (map pages [pg + 1..<101])),
       (calls @ cs pg) @ concat (map cs [pg + 1..<101]))"
    using Suc.hyps Suc.prems lt by (intro Suc.hyps(1)) auto
  have unroll: "[pg..<101] = pg # [pg + 1..<101]"
    using lt by (simp add: upt_conv_Cons)
  show ?case
    using here lt rest
    by (subst paginate.simps) (simp add: page_params_def [symmetric] unroll)
qed

lemma paginate_stop:
  assumes "\<forall>i. pg \<le> i \<and> i < k \<longrightarrow> getPage (page_params ps i) = (Inr (pages i), cs i) \<and> pages i \<noteq> []"
    and "getPage (page_params ps k) = (Inr [], cs k)"
    and "pg \<le> k" and "k \<le> 100"
  shows "paginate getPage ps pg acc calls =
           (Inr (acc @ concat (map pages [pg..<k])), calls @ concat (map cs [pg..<Suc k]))"
  using assms
proof (induction "k - pg" arbitrary: pg acc calls)
  case 0
  then have "pg = k" by simp
  with 0 show ?case
    by (subst paginate.simps) (simp add: page_params_def)
next
  case (Suc n)
  then have lt: "pg < k" by simp
  from Suc.prems lt have here: "getPage (page_params ps pg) = (Inr (pages pg), cs pg)" "pages pg \<noteq> []"
    by auto
  have rest: "paginate getPage ps (pg + 1) (acc @ pages pg) (calls @ cs pg) =
      (Inr ((acc @ pages pg) @ concat (map pages [pg + 1..<k])),
       (calls @ cs pg) @ concat (map cs [pg + 1..<Suc k]))"
    using Suc.hyps Suc.prems lt by (intro Suc.hyps(1)) auto
  have unroll: "[pg..<k] = pg # [pg + 1..<k]" "[pg..<Suc k] = pg # [pg + 1..<Suc k]"
    using lt by (simp_all add: upt_conv_Cons)
  show ?case
    using here lt rest \<open>k \<le> 100\<close>
    by (subst paginate.simps) (simp add: page_params_def [symmetric] unroll)
qed

section \<open>The product reduction's stock buckets\<close>

text \<open>
  Claim C4. A product whose stock status is \<^verbatim>\<open>outofstock\<close>, or whose tracked quantity
  is exactly 0, adds one to the out-of-stock count and nothing to the low-stock count.
  A product that changes the low-stock count adds exactly one to it, leaves the
  out-of-stock count alone, has stock management enabled and a quantity of at most 10:
  the low-stock test sits in the \<^verbatim>\<open>else\<close> branch of the out-of-stock test. Over a
  whole product list, the two counts are the numbers of products in the two disjoint
  buckets.
\<close>

theorem out_of_stock_before_low_stock:
  "(stock_status p = ''outofstock'' \<or> parseInt_or_0 (stock_quantity p) = 0 \<longrightarrow>
      outOfStockCount (product_step acc p) = outOfStockCount acc + 1
      \<and> lowStockCount (product_step acc p) = lowStockCount acc)
   \<and> (lowStockCount (product_step acc p) \<noteq> lowStockCount acc \<longrightarrow>
        lowStockCount (product_step acc p) = lowStockCount acc + 1
        \<and> outOfStockCount (product_step acc p) = outOfStockCount acc
        \<and> \<not> is_out_of_stock p
        \<and> manage_stock p \<and> parseInt_or_0 (stock_quantity p) \<le> 10)
   \<and> outOfStockCount (reduce_products ps) = length (filter is_out_of_stock ps)
   \<and> lowStockCount (reduce_products ps) = length (filter is_low_stock ps)"
  by (simp add: outOfStockCount_step lowStockCount_step reduce_products_def
      counts_foldl_product_step product_acc0_def is_low_stock_def is_out_of_stock_def)

theorem out_of_stock_before_low_stock_witness:
  "outOfStockCount (product_step product_acc0 product_gone) = 1
   \<and> lowStockCount (product_step product_acc0 product_gone) = 0
   \<and> lowStockCount (product_step product_acc0 product_few) = 1
   \<and> outOfStockCount (product_step product_acc0 product_few) = 0
   \<and> outOfStockCount (reduce_products [product_gone, product_few]) = 1
   \<and> lowStockCount (reduce_products [product_gone, product_few]) = 1"
  using out_of_stock_before_low_stock [of product_gone product_acc0 "[product_gone, product_few]"]
    out_of_stock_before_low_stock [of product_few product_acc0 "[]"]
  by (simp add: product_gone_def product_few_def product_acc0_def parseInt_or_0_def
      is_out_of_stock_def is_low_stock_def product_step_def lowStockThreshold_def)

text \<open>
  Claim C10. A product whose \<^verbatim>\<open>stock_quantity\<close> is absent or not a number has its
  quantity read as 0, so it is counted out of stock and not low in stock, whatever its
  stock status and whether or not its stock is managed.
\<close>

theorem missing_quantity_is_out_of_stock:
  "stock_quantity p = None \<Longrightarrow>
     parseInt_or_0 (stock_quantity p) = 0
     \<and> outOfStockCount (product_step acc p) = outOfStockCount acc + 1
     \<and> lowStockCount (product_step acc p) = lowStockCount acc"
  by (simp add: product_step_def Let_def parseInt_or_0_def)

theorem missing_quantity_is_out_of_stock_witness:
  "stock_status product_untracked = ''instock'' \<and> \<not> manage_stock product_untracked
   \<and> outOfStockCount (product_step product_acc0 product_untracked) = 1
   \<and> lowStockCount (product_step product_acc0 product_untracked) = 0"
  using missing_quantity_is_out_of_stock [of product_untracked product_acc0]
  by (simp add: product_untracked_def product_acc0_def)

section \<open>The average order value\<close>


lemma shop_orders:
  "fst (getAllOrders shop ps) = Inr [order_done, order_open]"
  by (simp add: getAllOrders_def getOrders_def shop_def with_defaults_def Let_def
      paginate.simps [of _ _ "Suc 0"] paginate.simps [of _ _ "Suc (Suc 0)"] order_done_def)

lemma shop_open_only_orders:
  "fst (getAllOrders shop_open_only ps) = Inr [order_open]"
  by (simp add: getAllOrders_def getOrders_def shop_open_only_def shop_def with_defaults_def
      Let_def paginate.simps [of _ _ "Suc 0"] paginate.simps [of _ _ "Suc (Suc 0)"])


section \<open>Pagination\<close>

text \<open>
  Claim C2. For orders and for products alike: when each of the requests the paginated
  fetch sends gets a non-empty page, it sends exactly the requests for pages 1 to 100,
  each with page size 100, and returns the concatenation of the 100 pages, not an error.
  When the requests for pages 1 to \<open>k - 1\<close> get non-empty pages and the one for page
  \<open>k \<le> 100\<close> gets an empty page, it sends exactly the requests for pages 1 to \<open>k\<close> and
  returns the concatenation of the pages before \<open>k\<close>.
\<close>

theorem pagination_ceiling:
  "((\<forall>pg\<in>{1..100}. api_orders c (page_query ps pg) = Inr (orders pg) \<and> orders pg \<noteq> []) \<longrightarrow>
      getAllOrders c ps = (Inr (concat (map orders [1..<101])), map (page_query ps) [1..<101]))
   \<and> (k \<in> {1..100}
        \<and> (\<forall>pg\<in>{1..<k}. api_orders c (page_query ps pg) = Inr (orders pg) \<and> orders pg \<noteq> [])
        \<and> api_orders c (page_query ps k) = Inr [] \<longrightarrow>
      getAllOrders c ps = (Inr (concat (map orders [1..<k])), map (page_query ps) [1..<Suc k]))
   \<and> ((\<forall>pg\<in>{1..100}. api_products c (page_query ps pg) = Inr (products pg) \<and> products pg \<noteq> []) \<longrightarrow>
      getAllProducts c ps = (Inr (concat (map products [1..<101])), map (page_query ps) [1..<101]))
   \<and> (k \<in> {1..100}
        \<and> (\<forall>pg\<in>{1..<k}. api_products c (page_query ps pg) = Inr (products pg) \<and> products pg \<noteq> [])
        \<and> api_products c (page_query ps k) = Inr [] \<longrightarrow>
      getAllProducts c ps = (Inr (concat (map products [1..<k])), map (page_query ps) [1..<Suc k]))"
proof -
  have q: "with_defaults (page_params ps pg) = page_query ps pg" for pg
    by (simp add: with_defaults_def page_params_def page_query_def)
  have cs: "concat (map (\<lambda>pg. [page_query ps pg]) xs) = map (page_query ps) xs" for xs
    by (induction xs) simp_all
  have o_full: "getAllOrders c ps = (Inr (concat (map orders [1..<101])), map (page_query ps) [1..<101])"
    if "\<forall>pg\<in>{1..100}. api_orders c (page_query ps pg) = Inr (orders pg) \<and> orders pg \<noteq> []"
    unfolding getAllOrders_def
    using paginate_full [of 1 "getOrders c" ps orders "\<lambda>pg. [page_query ps pg]" "[]" "[]"] that
    by (simp add: getOrders_def Let_def q cs)
  have o_stop: "getAllOrders c ps = (Inr (concat (map orders [1..<k])), map (page_query ps) [1..<Suc k])"
    if "k \<in> {1..100}"
      and "\<forall>pg\<in>{1..<k}. api_orders c (page_query ps pg) = Inr (orders pg) \<and> orders pg \<noteq> []"
      and "api_orders c (page_query ps k) = Inr []"
    unfolding getAllOrders_def
    using paginate_stop [of 1 k "getOrders c" ps orders "\<lambda>pg. [page_query ps pg]" "[]" "[]"] that
    by (simp add: getOrders_def Let_def q cs)
  have p_full: "getAllProducts c ps = (Inr (concat (map products [1..<101])), map (page_query ps) [1..<101])"
    if "\<forall>pg\<in>{1..100}. api_products c (page_query ps pg) = Inr (products pg) \<and> products pg \<noteq> []"
    unfolding getAllProducts_def
    using paginate_full [of 1 "getProducts c" ps products "\<lambda>pg. [page_query ps pg]" "[]" "[]"] that
    by (simp add: getProducts_def Let_def q cs)
  have p_stop: "getAllProducts c ps = (Inr (concat (map products [1..<k])), map (page_query ps) [1..<Suc k])"
    if "k \<in> {1..100}"
      and "\<forall>pg\<in>{1..<k}. api_products c (page_query ps pg) = Inr (products pg) \<and> products pg \<noteq> []"
      and "api_products c (page_query ps k) = Inr []"
    unfolding getAllProducts_def
    using paginate_stop [of 1 k "getProducts c" ps products "\<lambda>pg. [page_query ps pg]" "[]" "[]"] that
    by (simp add: getProducts_def Let_def q cs)
  show ?thesis
    using o_full o_stop p_full p_stop by blast
qed

theorem pagination_ceiling_witness:
  "getAllOrders shop_endless no_params
     = (Inr (concat (map (\<lambda>pg. [order_open]) [1..<101])), map (page_query no_params) [1..<101])
   \<and> getAllProducts shop_endless no_params
     = (Inr (concat (map (\<lambda>pg. [product_few]) [1..<101])), map (page_query no_params) [1..<101])
   \<and> length (snd (getAllOrders shop_endless no_params)) = 100
   \<and> getAllOrders shop no_params
     = (Inr [order_done, order_open], [page_query no_params 1, page_query no_params 2])
   \<and> getAllProducts shop no_params
     = (Inr [product_gone, product_few], [page_query no_params 1, page_query no_params 2])"
proof -
  have two: "[1..<2] = [1::nat]" "[1..<Suc 2] = [1::nat, 2]"
    by (simp_all add: upt_conv_Cons)
  have endless:
    "\<forall>pg\<in>{1..100}. api_orders shop_endless (page_query no_params pg) = Inr [order_open] \<and> [order_open] \<noteq> []"
    "\<forall>pg\<in>{1..100}. api_products shop_endless (page_query no_params pg) = Inr [product_few] \<and> [product_few] \<noteq> []"
    by (simp_all add: shop_endless_def shop_def)
  have small:
    "(2::nat) \<in> {1..100}"
    "\<forall>pg\<in>{1..<2::nat}. api_orders shop (page_query no_params pg)
        = Inr ((\<lambda>pg. [order_done, order_open]) pg) \<and> (\<lambda>pg. [order_done, order_open]) pg \<noteq> []"
    "api_orders shop (page_query no_params 2) = Inr []"
    "\<forall>pg\<in>{1..<2::nat}. api_products shop (page_query no_params pg)
        = Inr ((\<lambda>pg. [product_gone, product_few]) pg) \<and> (\<lambda>pg. [product_gone, product_few]) pg \<noteq> []"
    "api_products shop (page_query no_params 2) = Inr []"
    by (simp_all add: shop_def page_query_def)
  note full = pagination_ceiling [of shop_endless no_params "\<lambda>pg. [order_open]" 1 "\<lambda>pg. [product_few]"]
  note stop = pagination_ceiling [of shop no_params "\<lambda>pg. [order_done, order_open]" 2
        "\<lambda>pg. [product_gone, product_few]"]
  have a: "getAllOrders shop_endless no_params
     = (Inr (concat (map (\<lambda>pg. [order_open]) [1..<101])), map (page_query no_params) [1..<101])"
    using full endless by blast
  have b: "getAllProducts shop_endless no_params
     = (Inr (concat (map (\<lambda>pg. [product_few]) [1..<101])), map (page_query no_params) [1..<101])"
    using full endless by blast
  have c: "getAllOrders shop no_params
     = (Inr (concat (map (\<lambda>pg. [order_done, order_open]) [1..<2])),
        map (page_query no_params) [1..<Suc 2])"
    using stop small by blast
  have d: "getAllProducts shop no_params
     = (Inr (concat (map (\<lambda>pg. [product_gone, product_few]) [1..<2])),
        map (page_query no_params) [1..<Suc 2])"
    using stop small by blast
  have e: "length (snd (getAllOrders shop_endless no_params)) = 100"
    unfolding a by simp
  show ?thesis
    using a b c d e unfolding two by simp
qed

section \<open>The connection test\<close>

text \<open>
  Claim C7. \<^verbatim>\<open>testConnection\<close> always returns a boolean and never throws: \<open>True\<close> when
  the status call succeeds, \<open>False\<close> when it fails, and then the log holds an error line
  with the cause.
\<close>

theorem testConnection_total:
  "fst (testConnection c) = Inr (\<not> isl (api_system_status c))
   \<and> (\<forall>msg. api_system_status c = Inl (Error msg) \<longrightarrow>
         (Err, ''Connection test failed for store '' @ storeId c @ '': '' @ msg)
           \<in> set (snd (testConnection c)))"
  by (cases "api_system_status c") (auto simp: testConnection_def split: js_error.splits)

theorem testConnection_total_witness:
  "fst (testConnection shop) = Inr True \<and> fst (testConnection shop_down) = Inr False
   \<and> (Err, ''Connection test failed for store s1: timeout'') \<in> set (snd (testConnection shop_down))"
proof -
  have "api_system_status shop_down = Inl (Error ''timeout'')"
    by (simp add: shop_down_def)
  then show ?thesis
    using testConnection_total [of shop] testConnection_total [of shop_down]
    by (simp add: shop_def shop_down_def)
qed

section \<open>A cycle without stores\<close>

text \<open>
  Claim C6. With no store client, \<^verbatim>\<open>collectAllMetrics\<close> returns without an error and
  leaves the exporter as it was: the registry holds the same cells with the same values,
  and renders the same.
\<close>

theorem no_stores_no_writes:
  "storeClients a = [] \<Longrightarrow>
     collectAllMetrics clocks now a = (Inr None, a)
     \<and> register (snd (collectAllMetrics clocks now a)) = register a
     \<and> getMetrics (register (snd (collectAllMetrics clocks now a))) = getMetrics (register a)"
  by (simp add: collectAllMetrics_def)

theorem no_stores_no_writes_witness:
  "collectAllMetrics (\<lambda>s. clock0) 9000
      \<lparr>storeClients = [], register = [((pendingOrdersGauge, []), 3)], lastCollectionTime = None\<rparr>
     = (Inr None,
        \<lparr>storeClients = [], register = [((pendingOrdersGauge, []), 3)], lastCollectionTime = None\<rparr>)"
  using no_stores_no_writes [of "\<lparr>storeClients = [], register = [((pendingOrdersGauge, []), 3)],
      lastCollectionTime = None\<rparr>" "\<lambda>s. clock0" 9000]
  by simp

section \<open>The customer count\<close>




lemma collectCustomerMetrics_ok:
  "fst (getCustomers c (no_params\<lparr>per_page_opt := Some 1\<rparr>)) = Inr customers \<Longrightarrow>
   collectCustomerMetrics clk c reg =
     (Inr (),
      gauge_set totalCustomersGauge (store_labels c) (real (fst (count_customers c customers)))
        (gauge_set apiResponseTimeGauge (endpoint_labels c ''customers'')
           (real_of_int (customers_fetched clk - customers_start clk) / 1000) reg))"
  by (simp add: collectCustomerMetrics_def try_catch_def Let_def)

lemma collectCustomerMetrics_fail:
  "fst (getCustomers c (no_params\<lparr>per_page_opt := Some 1\<rparr>)) = Inl e \<Longrightarrow>
   collectCustomerMetrics clk c reg =
     (Inl e, counter_inc scrapeErrorsCounter (error_labels c ''customers'') reg)"
  by (simp add: collectCustomerMetrics_def try_catch_def)









section \<open>Which cells a reduction can change\<close>

lemma gauge_set_frame:
  "k \<noteq> (m, ls) \<Longrightarrow> value_of (gauge_set m ls v reg) k = value_of reg k"
  by (simp add: value_of_gauge_set)

lemma gauge_set_cell:
  "value_of r1 k = value_of r2 k \<Longrightarrow>
   value_of (gauge_set m ls v r1) k = value_of (gauge_set m ls v r2) k"
  by (simp add: value_of_gauge_set)

lemma gauge_set_keeps:
  "value_of reg k \<noteq> None \<Longrightarrow> value_of (gauge_set m ls v reg) k \<noteq> None"
  by (simp add: value_of_gauge_set)

lemma counter_inc_frame:
  "k \<noteq> (m, ls) \<Longrightarrow> value_of (counter_inc m ls reg) k = value_of reg k"
  by (simp add: value_of_counter_inc)

lemma counter_inc_cell:
  "value_of r1 k = value_of r2 k \<Longrightarrow>
   value_of (counter_inc m ls r1) k = value_of (counter_inc m ls r2) k"
  by (auto simp: value_of_counter_inc counter_value_def)

lemma counter_inc_keeps:
  "value_of reg k \<noteq> None \<Longrightarrow> value_of (counter_inc m ls reg) k \<noteq> None"
  by (simp add: value_of_counter_inc)

lemma value_of_foldl_frame:
  "k \<notin> (\<lambda>e. (m, f e)) ` set xs \<Longrightarrow>
   value_of (foldl (\<lambda>r e. gauge_set m (f e) (g e) r) reg xs) k = value_of reg k"
  by (induction xs arbitrary: reg) (auto simp: value_of_gauge_set)

lemma value_of_foldl_cell:
  "value_of r1 k = value_of r2 k \<Longrightarrow>
   value_of (foldl (\<lambda>r e. gauge_set m (f e) (g e) r) r1 xs) k
     = value_of (foldl (\<lambda>r e. gauge_set m (f e) (g e) r) r2 xs) k"
  by (induction xs arbitrary: r1 r2) (simp_all add: value_of_gauge_set)

lemma value_of_foldl_keeps:
  "value_of reg k \<noteq> None \<Longrightarrow>
   value_of (foldl (\<lambda>r e. gauge_set m (f e) (g e) r) reg xs) k \<noteq> None"
  by (induction xs arbitrary: reg) (simp_all add: value_of_gauge_set)

lemma order_writes_cell:
  "value_of r1 k = value_of r2 k \<Longrightarrow>
   value_of (order_writes clk c orders r1) k = value_of (order_writes clk c orders r2) k"
  unfolding order_writes_def Let_def
  by (intro value_of_foldl_cell gauge_set_cell)

lemma order_writes_keeps:
  "value_of reg k \<noteq> None \<Longrightarrow> value_of (order_writes clk c orders reg) k \<noteq> None"
  unfolding order_writes_def Let_def
  by (intro value_of_foldl_keeps gauge_set_keeps)


lemma product_writes_keeps:
  "value_of reg k \<noteq> None \<Longrightarrow> value_of (product_writes clk c products reg) k \<noteq> None"
  unfolding product_writes_def Let_def
  by (intro value_of_foldl_keeps gauge_set_keeps)


lemma gauge_set_frame_metric:
  "fst k \<noteq> m \<Longrightarrow> value_of (gauge_set m ls v reg) k = value_of reg k"
  by (cases k) (simp add: value_of_gauge_set)

lemma order_writes_frame:
  "fst k \<notin> order_metrics \<Longrightarrow> k \<noteq> (apiResponseTimeGauge, endpoint_labels c ''orders'') \<Longrightarrow>
   value_of (order_writes clk c orders reg) k = value_of reg k"
  by (simp add: order_writes_def Let_def order_metrics_def gauge_set_frame_metric
      value_of_foldl_other gauge_set_frame)

lemma product_writes_frame:
  "fst k \<notin> product_metrics \<Longrightarrow> k \<noteq> (apiResponseTimeGauge, endpoint_labels c ''products'') \<Longrightarrow>
   value_of (product_writes clk c products reg) k = value_of reg k"
  by (simp add: product_writes_def Let_def product_metrics_def gauge_set_frame_metric
      value_of_foldl_other gauge_set_frame)

lemma collectProductMetrics_ok:
  "fst (getAllProducts c no_params) = Inr products \<Longrightarrow>
   collectProductMetrics clk c reg = (Inr (), product_writes clk c products reg)"
  by (simp add: collectProductMetrics_def try_catch_def)

lemma collectProductMetrics_fail:
  "fst (getAllProducts c no_params) = Inl e \<Longrightarrow>
   collectProductMetrics clk c reg =
     (Inl e, counter_inc scrapeErrorsCounter (error_labels c ''products'') reg)"
  by (simp add: collectProductMetrics_def try_catch_def)

lemma error_labels_inject [simp]:
  "(error_labels c s = error_labels c t) = (s = t)"
  by (simp add: error_labels_def)

lemma endpoint_labels_inject [simp]:
  "(endpoint_labels c s = endpoint_labels c t) = (s = t)"
  by (simp add: endpoint_labels_def)

lemma collectOrderMetrics_result:
  "fst (collectOrderMetrics clk c reg) = fst (collectOrderMetrics clk c reg0)"
  by (cases "fst (getAllOrders c (order_params clk))")
     (simp_all add: collectOrderMetrics_ok collectOrderMetrics_fail)

lemma collectOrderMetrics_frame:
  "fst k \<notin> order_metrics \<Longrightarrow> k \<noteq> (apiResponseTimeGauge, endpoint_labels c ''orders'') \<Longrightarrow>
   k \<noteq> (scrapeErrorsCounter, error_labels c ''orders'') \<Longrightarrow>
   value_of (snd (collectOrderMetrics clk c reg)) k = value_of reg k"
  by (cases "fst (getAllOrders c (order_params clk))")
     (simp_all add: collectOrderMetrics_ok collectOrderMetrics_fail order_writes_frame
       counter_inc_frame)

lemma collectOrderMetrics_cell:
  assumes "value_of r1 k = value_of r2 k"
  shows "value_of (snd (collectOrderMetrics clk c r1)) k = value_of (snd (collectOrderMetrics clk c r2)) k"
proof (cases "fst (getAllOrders c (order_params clk))")
  case (Inl e)
  show ?thesis
    unfolding collectOrderMetrics_fail [OF Inl] snd_conv using assms by (rule counter_inc_cell)
next
  case (Inr xs)
  show ?thesis
    unfolding collectOrderMetrics_ok [OF Inr] snd_conv using assms by (intro order_writes_cell)
qed

lemma collectOrderMetrics_keeps:
  assumes "value_of reg k \<noteq> None"
  shows "value_of (snd (collectOrderMetrics clk c reg)) k \<noteq> None"
proof (cases "fst (getAllOrders c (order_params clk))")
  case (Inl e)
  show ?thesis
    unfolding collectOrderMetrics_fail [OF Inl] snd_conv using assms by (rule counter_inc_keeps)
next
  case (Inr xs)
  show ?thesis
    unfolding collectOrderMetrics_ok [OF Inr] snd_conv using assms by (intro order_writes_keeps)
qed

lemma collectOrderMetrics_counter:
  "counter_value (snd (collectOrderMetrics clk c reg)) (scrapeErrorsCounter, error_labels c ''orders'')
     = counter_value reg (scrapeErrorsCounter, error_labels c ''orders'')
       + (if isl (fst (collectOrderMetrics clk c reg)) then 1 else 0)"
  by (cases "fst (getAllOrders c (order_params clk))")
     (simp_all add: collectOrderMetrics_ok collectOrderMetrics_fail order_writes_frame
       value_of_counter_inc counter_value_def order_metrics_def)

lemma collectProductMetrics_result:
  "fst (collectProductMetrics clk c reg) = fst (collectProductMetrics clk c reg0)"
  by (cases "fst (getAllProducts c no_params)")
     (simp_all add: collectProductMetrics_ok collectProductMetrics_fail)

lemma collectProductMetrics_frame:
  "fst k \<notin> product_metrics \<Longrightarrow> k \<noteq> (apiResponseTimeGauge, endpoint_labels c ''products'') \<Longrightarrow>
   k \<noteq> (scrapeErrorsCounter, error_labels c ''products'') \<Longrightarrow>
   value_of (snd (collectProductMetrics clk c reg)) k = value_of reg k"
  by (cases "fst (getAllProducts c no_params)")
     (simp_all add: collectProductMetrics_ok collectProductMetrics_fail product_writes_frame
       counter_inc_frame)


lemma collectProductMetrics_keeps:
  assumes "value_of reg k \<noteq> None"
  shows "value_of (snd (collectProductMetrics clk c reg)) k \<noteq> None"
proof (cases "fst (getAllProducts c no_params)")
  case (Inl e)
  show ?thesis
    unfolding collectProductMetrics_fail [OF Inl] snd_conv using assms by (rule counter_inc_keeps)
next
  case (Inr xs)
  show ?thesis
    unfolding collectProductMetrics_ok [OF Inr] snd_conv using assms by (intro product_writes_keeps)
qed

lemma collectProductMetrics_counter:
  "counter_value (snd (collectProductMetrics clk c reg)) (scrapeErrorsCounter, error_labels c ''products'')
     = counter_value reg (scrapeErrorsCounter, error_labels c ''products'')
       + (if isl (fst (collectProductMetrics clk c reg)) then 1 else 0)"
  by (cases "fst (getAllProducts c no_params)")
     (simp_all add: collectProductMetrics_ok collectProductMetrics_fail product_writes_frame
       value_of_counter_inc counter_value_def product_metrics_def)

lemma collectCustomerMetrics_result:
  "fst (collectCustomerMetrics clk c reg) = fst (collectCustomerMetrics clk c reg0)"
  by (cases "fst (getCustomers c (no_params\<lparr>per_page_opt := Some 1\<rparr>))")
     (simp_all add: collectCustomerMetrics_ok collectCustomerMetrics_fail)

lemma collectCustomerMetrics_frame:
  "fst k \<notin> customer_metrics \<Longrightarrow> k \<noteq> (apiResponseTimeGauge, endpoint_labels c ''customers'') \<Longrightarrow>
   k \<noteq> (scrapeErrorsCounter, error_labels c ''customers'') \<Longrightarrow>
   value_of (snd (collectCustomerMetrics clk c reg)) k = value_of reg k"
  by (cases "fst (getCustomers c (no_params\<lparr>per_page_opt := Some 1\<rparr>))")
     (simp_all add: collectCustomerMetrics_ok collectCustomerMetrics_fail customer_metrics_def
       counter_inc_frame gauge_set_frame gauge_set_frame_metric)


lemma collectCustomerMetrics_keeps:
  assumes "value_of reg k \<noteq> None"
  shows "value_of (snd (collectCustomerMetrics clk c reg)) k \<noteq> None"
proof (cases "fst (getCustomers c (no_params\<lparr>per_page_opt := Some 1\<rparr>))")
  case (Inl e)
  show ?thesis
    unfolding collectCustomerMetrics_fail [OF Inl] snd_conv using assms by (rule counter_inc_keeps)
next
  case (Inr xs)
  show ?thesis
    unfolding collectCustomerMetrics_ok [OF Inr] snd_conv using assms by (intro gauge_set_keeps)
qed

lemma collectCustomerMetrics_counter:
  "counter_value (snd (collectCustomerMetrics clk c reg)) (scrapeErrorsCounter, error_labels c ''customers'')
     = counter_value reg (scrapeErrorsCounter, error_labels c ''customers'')
       + (if isl (fst (collectCustomerMetrics clk c reg)) then 1 else 0)"
  by (cases "fst (getCustomers c (no_params\<lparr>per_page_opt := Some 1\<rparr>))")
     (simp_all add: collectCustomerMetrics_ok collectCustomerMetrics_fail
       value_of_counter_inc value_of_gauge_set counter_value_def)

text \<open>\<^verbatim>\<open>collectStoreMetrics\<close> always reaches the end of its \<^verbatim>\<open>try\<close> block.\<close>

lemma collectStoreMetrics_eq:
  "collectStoreMetrics clk c reg =
     (Inr (),
      gauge_set scrapeDurationGauge (store_labels c)
        (real_of_int (store_done2 clk - store_start clk) / 1000)
        (gauge_set lastScrapeSuccessGauge (store_labels c) (real_of_int (store_done clk div 1000))
           (snd (collectCustomerMetrics clk c
              (snd (collectProductMetrics clk c (snd (collectOrderMetrics clk c reg))))))))"
  by (simp add: collectStoreMetrics_def try_catch_def Let_def split: prod.splits)

section \<open>One store's collection\<close>

lemma store_final_frame:
  "fst k \<noteq> scrapeDurationGauge \<Longrightarrow> fst k \<noteq> lastScrapeSuccessGauge \<Longrightarrow>
   value_of (snd (collectStoreMetrics clk c reg)) k
     = value_of (snd (collectCustomerMetrics clk c
         (snd (collectProductMetrics clk c (snd (collectOrderMetrics clk c reg)))))) k"
  by (simp add: collectStoreMetrics_eq gauge_set_frame_metric)

lemma store_order_cells:
  assumes "fst k \<in> order_metrics"
  shows "value_of (snd (collectStoreMetrics clk c reg)) k
           = value_of (snd (collectOrderMetrics clk c reg)) k"
proof -
  have k: "fst k \<noteq> scrapeDurationGauge" "fst k \<noteq> lastScrapeSuccessGauge"
    "fst k \<notin> customer_metrics" "fst k \<notin> product_metrics"
    "fst k \<noteq> apiResponseTimeGauge" "fst k \<noteq> scrapeErrorsCounter"
    using assms by (auto simp: order_metrics_def customer_metrics_def product_metrics_def)
  then have ne: "k \<noteq> (apiResponseTimeGauge, ls)" "k \<noteq> (scrapeErrorsCounter, ls)" for ls
    by auto
  show ?thesis
    by (simp add: store_final_frame k collectCustomerMetrics_frame collectProductMetrics_frame ne)
qed



lemma error_key_facts:
  "fst (scrapeErrorsCounter, ls) \<notin> order_metrics"
  "fst (scrapeErrorsCounter, ls) \<notin> product_metrics"
  "fst (scrapeErrorsCounter, ls) \<notin> customer_metrics"
  "(scrapeErrorsCounter, ls) \<noteq> (apiResponseTimeGauge, ls')"
  by (simp_all add: order_metrics_def product_metrics_def customer_metrics_def)

lemma store_error_counters:
  "counter_value (snd (collectStoreMetrics clk c reg)) (scrapeErrorsCounter, error_labels c ''orders'')
     = counter_value reg (scrapeErrorsCounter, error_labels c ''orders'')
       + (if isl (fst (collectOrderMetrics clk c reg)) then 1 else 0)"
  "counter_value (snd (collectStoreMetrics clk c reg)) (scrapeErrorsCounter, error_labels c ''products'')
     = counter_value reg (scrapeErrorsCounter, error_labels c ''products'')
       + (if isl (fst (collectProductMetrics clk c reg)) then 1 else 0)"
  "counter_value (snd (collectStoreMetrics clk c reg)) (scrapeErrorsCounter, error_labels c ''customers'')
     = counter_value reg (scrapeErrorsCounter, error_labels c ''customers'')
       + (if isl (fst (collectCustomerMetrics clk c reg)) then 1 else 0)"
  "counter_value (snd (collectStoreMetrics clk c reg)) (scrapeErrorsCounter, error_labels c ''general'')
     = counter_value reg (scrapeErrorsCounter, error_labels c ''general'')"
proof -
  let ?O = "snd (collectOrderMetrics clk c reg)"
  let ?P = "snd (collectProductMetrics clk c ?O)"
  let ?C = "snd (collectCustomerMetrics clk c ?P)"
  have final: "counter_value (snd (collectStoreMetrics clk c reg)) (scrapeErrorsCounter, ls)
      = counter_value ?C (scrapeErrorsCounter, ls)" for ls
    by (simp add: counter_value_def store_final_frame)
  have o: "counter_value ?O (scrapeErrorsCounter, error_labels c t)
      = counter_value reg (scrapeErrorsCounter, error_labels c t)" if "t \<noteq> ''orders''" for t
    using that collectOrderMetrics_frame [of "(scrapeErrorsCounter, error_labels c t)" c clk reg]
    by (simp add: counter_value_def order_metrics_def)
  have p: "counter_value ?P (scrapeErrorsCounter, error_labels c t)
      = counter_value ?O (scrapeErrorsCounter, error_labels c t)" if "t \<noteq> ''products''" for t
    using that collectProductMetrics_frame [of "(scrapeErrorsCounter, error_labels c t)" c clk ?O]
    by (simp add: counter_value_def product_metrics_def)
  have cu: "counter_value ?C (scrapeErrorsCounter, error_labels c t)
      = counter_value ?P (scrapeErrorsCounter, error_labels c t)" if "t \<noteq> ''customers''" for t
    using that collectCustomerMetrics_frame [of "(scrapeErrorsCounter, error_labels c t)" c clk ?P]
    by (simp add: counter_value_def customer_metrics_def)
  have rp: "fst (collectProductMetrics clk c ?O) = fst (collectProductMetrics clk c reg)"
    by (rule collectProductMetrics_result)
  have rc: "fst (collectCustomerMetrics clk c ?P) = fst (collectCustomerMetrics clk c reg)"
    by (rule collectCustomerMetrics_result)
  show "counter_value (snd (collectStoreMetrics clk c reg)) (scrapeErrorsCounter, error_labels c ''orders'')
     = counter_value reg (scrapeErrorsCounter, error_labels c ''orders'')
       + (if isl (fst (collectOrderMetrics clk c reg)) then 1 else 0)"
    using collectOrderMetrics_counter [of clk c reg]
    by (simp add: final cu p)
  show "counter_value (snd (collectStoreMetrics clk c reg)) (scrapeErrorsCounter, error_labels c ''products'')
     = counter_value reg (scrapeErrorsCounter, error_labels c ''products'')
       + (if isl (fst (collectProductMetrics clk c reg)) then 1 else 0)"
    using collectProductMetrics_counter [of clk c ?O]
    by (simp add: final cu o rp)
  show "counter_value (snd (collectStoreMetrics clk c reg)) (scrapeErrorsCounter, error_labels c ''customers'')
     = counter_value reg (scrapeErrorsCounter, error_labels c ''customers'')
       + (if isl (fst (collectCustomerMetrics clk c reg)) then 1 else 0)"
    using collectCustomerMetrics_counter [of clk c ?P]
    by (simp add: final p o rc)
  show "counter_value (snd (collectStoreMetrics clk c reg)) (scrapeErrorsCounter, error_labels c ''general'')
     = counter_value reg (scrapeErrorsCounter, error_labels c ''general'')"
    by (simp add: final cu p o)
qed




lemma shop_down_fetches:
  "fst (getAllOrders shop_down ps) = Inl (Error ''timeout'')"
  "fst (getAllProducts shop_down ps) = Inl (Error ''timeout'')"
  "fst (getCustomers shop_down ps) = Inl (Error ''timeout'')"
  by (simp_all add: getAllOrders_def getOrders_def getAllProducts_def getProducts_def
      getCustomers_def shop_down_def shop_def Let_def paginate.simps [of _ _ "Suc 0"])

lemma shop_down_fails:
  "isl (fst (collectOrderMetrics clk shop_down reg))"
  "isl (fst (collectProductMetrics clk shop_down reg))"
  "isl (fst (collectCustomerMetrics clk shop_down reg))"
  by (simp_all add: collectOrderMetrics_fail collectProductMetrics_fail
      collectCustomerMetrics_fail shop_down_fetches)





section \<open>The outer catch\<close>

lemma allSettled_collect_one:
  "fst (allSettled (map (collect_one clocks) xs) reg)
     = map (\<lambda>entry. Inr \<lparr>r_storeId = fst entry, success = True, error_message = None\<rparr>) xs"
  by (induction xs arbitrary: reg)
     (simp_all add: collect_one_def collectStoreMetrics_eq split_beta)

lemma collectAllMetrics_counts:
  "storeClients a \<noteq> [] \<Longrightarrow>
   fst (collectAllMetrics clocks now a) = Inr (Some (length (storeClients a), 0))"
proof -
  assume ne: "storeClients a \<noteq> []"
  obtain results reg1 where r:
    "allSettled (map (collect_one clocks) (storeClients a)) (register a) = (results, reg1)"
    by (cases "allSettled (map (collect_one clocks) (storeClients a)) (register a)")
  then have "results
     = map (\<lambda>entry. Inr \<lparr>r_storeId = fst entry, success = True, error_message = None\<rparr>)
         (storeClients a)"
    using allSettled_collect_one [of clocks "storeClients a" "register a"] by simp
  then have "length (filter (\<lambda>r. case r of Inl e \<Rightarrow> False | Inr v \<Rightarrow> success v) results)
      = length (storeClients a)" "length results = length (storeClients a)"
    by (simp_all add: filter_map o_def)
  with ne r show ?thesis
    by (simp add: collectAllMetrics_def Let_def)
qed

text \<open>
  Claim C8. \<^verbatim>\<open>collectStoreMetrics\<close> returns normally whatever the three reductions
  do, so its \<^verbatim>\<open>catch\<close> never runs: the \<^verbatim>\<open>general\<close> error counter keeps its value,
  the per-store function of \<^verbatim>\<open>collectAllMetrics\<close> yields \<^verbatim>\<open>success: true\<close>, and a
  cycle over a non-empty set of stores counts every store as completed and none as
  failed.
\<close>

theorem reductions_never_reach_outer_catch:
  "fst (collectStoreMetrics clk c reg) = Inr ()
   \<and> counter_value (snd (collectStoreMetrics clk c reg))
         (scrapeErrorsCounter, error_labels c ''general'')
       = counter_value reg (scrapeErrorsCounter, error_labels c ''general'')
   \<and> fst (collect_one clocks (sid, c) reg)
       = Inr \<lparr>r_storeId = sid, success = True, error_message = None\<rparr>
   \<and> (storeClients a \<noteq> [] \<longrightarrow>
         fst (collectAllMetrics clocks now a) = Inr (Some (length (storeClients a), 0)))"
proof -
  have res: "fst (collectStoreMetrics clk c reg) = Inr ()"
    by (simp add: collectStoreMetrics_eq)
  have one: "fst (collect_one clocks (sid, c) reg)
       = Inr \<lparr>r_storeId = sid, success = True, error_message = None\<rparr>"
    by (simp add: collect_one_def collectStoreMetrics_eq)
  show ?thesis
    using res one store_error_counters(4) [of clk c reg] collectAllMetrics_counts [of a clocks now]
    by blast
qed

theorem reductions_never_reach_outer_catch_witness:
  "isl (fst (collectOrderMetrics clock0 shop_down []))
   \<and> isl (fst (collectProductMetrics clock0 shop_down []))
   \<and> isl (fst (collectCustomerMetrics clock0 shop_down []))
   \<and> fst (collectStoreMetrics clock0 shop_down []) = Inr ()
   \<and> counter_value (snd (collectStoreMetrics clock0 shop_down []))
         (scrapeErrorsCounter, error_labels shop_down ''general'') = 0
   \<and> fst (collect_one (\<lambda>s. clock0) (''s1'', shop_down) [])
       = Inr \<lparr>r_storeId = ''s1'', success = True, error_message = None\<rparr>
   \<and> fst (collectAllMetrics (\<lambda>s. clock0) 9000
            \<lparr>storeClients = [(''s1'', shop_down)], register = [], lastCollectionTime = None\<rparr>)
       = Inr (Some (1, 0))"
  using reductions_never_reach_outer_catch [of clock0 shop_down "[]" "\<lambda>s. clock0" "''s1''"
      "\<lparr>storeClients = [(''s1'', shop_down)], register = [], lastCollectionTime = None\<rparr>" 9000]
  by (simp add: shop_down_fails counter_value_def value_of_def)

section \<open>Cells that a cycle does not write\<close>

text \<open>The decimal text of a product id determines the id.\<close>

lemma digit_inject:
  "d < 10 \<Longrightarrow> d' < 10 \<Longrightarrow> ''0123456789'' ! d = ''0123456789'' ! d' \<Longrightarrow> d = d'"
  using nth_eq_iff_index_eq [of "''0123456789''" d d'] by simp

lemma toString_nat_not_Nil: "toString_nat n \<noteq> []"
  by (subst toString_nat.simps) simp

lemma toString_nat_inject:
  "toString_nat a = toString_nat b \<Longrightarrow> a = b"
proof (induction a arbitrary: b rule: toString_nat.induct)
  case (1 a)
  show ?case
  proof (cases "a < 10")
    case True
    then have a: "toString_nat a = [''0123456789'' ! a]"
      by (subst toString_nat.simps) simp
    show ?thesis
    proof (cases "b < 10")
      case b: True
      then have "toString_nat b = [''0123456789'' ! b]"
        by (subst toString_nat.simps) simp
      with a "1.prems" True b show ?thesis
        by (auto dest: digit_inject)
    next
      case False
      then have "toString_nat b = toString_nat (b div 10) @ [''0123456789'' ! (b mod 10)]"
        by (subst toString_nat.simps) simp
      with a "1.prems" toString_nat_not_Nil [of "b div 10"] show ?thesis
        by simp
    qed
  next
    case False
    then have a: "toString_nat a = toString_nat (a div 10) @ [''0123456789'' ! (a mod 10)]"
      by (subst toString_nat.simps) simp
    show ?thesis
    proof (cases "b < 10")
      case True
      then have "toString_nat b = [''0123456789'' ! b]"
        by (subst toString_nat.simps) simp
      with a "1.prems" toString_nat_not_Nil [of "a div 10"] show ?thesis
        by simp
    next
      case b: False
      then have "toString_nat b = toString_nat (b div 10) @ [''0123456789'' ! (b mod 10)]"
        by (subst toString_nat.simps) simp
      with a "1.prems" have eq: "toString_nat (a div 10) = toString_nat (b div 10)"
        "''0123456789'' ! (a mod 10) = ''0123456789'' ! (b mod 10)"
        by simp_all
      from "1.IH" [OF False eq(1)] have "a div 10 = b div 10" .
      moreover from eq(2) have "a mod 10 = b mod 10"
        by (intro digit_inject) simp_all
      ultimately have "a div 10 * 10 + a mod 10 = b div 10 * 10 + b mod 10"
        by simp
      then show ?thesis
        by (simp only: div_mult_mod_eq)
    qed
  qed
qed

lemma status_labels_inject [simp]:
  "(status_labels c s = status_labels c t) = (s = t)"
  by (simp add: status_labels_def)

lemma product_labels_inject:
  "(product_labels c e = product_labels c e') = (fst e = fst e' \<and> fst (snd e) = fst (snd e'))"
  by (auto simp: product_labels_def dest: toString_nat_inject)

lemma fst_set_count_status:
  "fst ` set (count_status s sc) = insert s (fst ` set sc)"
  by (simp add: count_status_def dom_update)

lemma statuses_foldl_order_step:
  "fst ` set (statusCounts (foldl (order_step clk) acc orders))
     = fst ` set (statusCounts acc) \<union> status ` set orders"
  by (induction orders arbitrary: acc)
     (auto simp: statusCounts_order_step fst_set_count_status)

lemma statuses_reduce_orders:
  "fst ` set (statusCounts (reduce_orders clk orders)) = status ` set orders"
  by (simp add: reduce_orders_def statuses_foldl_order_step order_acc0_def)

lemma order_writes_status_frame:
  assumes "ls \<notin> (\<lambda>ord. status_labels c (status ord)) ` set orders"
  shows "value_of (order_writes clk c orders reg) (ordersByStatusGauge, ls)
           = value_of reg (ordersByStatusGauge, ls)"
proof -
  have "(ordersByStatusGauge, ls)
      \<notin> (\<lambda>e. (ordersByStatusGauge, status_labels c (fst e))) ` set (statusCounts (reduce_orders clk orders))"
  proof
    assume "(ordersByStatusGauge, ls)
      \<in> (\<lambda>e. (ordersByStatusGauge, status_labels c (fst e))) ` set (statusCounts (reduce_orders clk orders))"
    then obtain e where e: "e \<in> set (statusCounts (reduce_orders clk orders))"
      "ls = status_labels c (fst e)"
      by auto
    then have "fst e \<in> status ` set orders"
      using statuses_reduce_orders [of clk orders] by auto
    with e assms show False by auto
  qed
  then show ?thesis
    by (simp add: order_writes_def Let_def value_of_foldl_other gauge_set_frame_metric
        value_of_foldl_frame)
qed

lemma order_writes_top_frame:
  assumes "ls \<notin> product_labels c ` set (topProducts (productSales (reduce_orders clk orders)))"
  shows "value_of (order_writes clk c orders reg) (topProductsSoldGauge, ls)
           = value_of reg (topProductsSoldGauge, ls)"
proof -
  have "(topProductsSoldGauge, ls)
      \<notin> (\<lambda>e. (topProductsSoldGauge, product_labels c e))
          ` set (topProducts (productSales (reduce_orders clk orders)))"
    using assms by auto
  then show ?thesis
    by (simp add: order_writes_def Let_def value_of_foldl_other gauge_set_frame_metric
        value_of_foldl_frame)
qed

lemma registered_all: "m \<in> set registered"
  by (cases m) (simp_all add: registered_def)

lemma getMetrics_member:
  assumes "value_of reg k = Some v"
  shows "(metric_name (fst k), snd k, v) \<in> set (getMetrics reg)"
proof -
  from assms have "(k, v) \<in> set reg"
    by (simp add: value_of_def map_of_SomeD)
  then have "(k, v) \<in> set (filter (\<lambda>(k', v'). fst k' = fst k) reg)"
    by simp
  then have "(\<lambda>(k', v'). (metric_name (fst k), snd k', v')) (k, v)
      \<in> (\<lambda>(k', v'). (metric_name (fst k), snd k', v')) ` set (filter (\<lambda>(k', v'). fst k' = fst k) reg)"
    by (rule imageI)
  then have "(metric_name (fst k), snd k, v)
      \<in> set (map (\<lambda>(k', v'). (metric_name (fst k), snd k', v'))
               (filter (\<lambda>(k', v'). fst k' = fst k) reg))"
    by simp
  then have "(metric_name (fst k), snd k, v)
      \<in> (\<Union>m\<in>set registered. set (map (\<lambda>(k', v'). (metric_name m, snd k', v'))
               (filter (\<lambda>(k', v'). fst k' = m) reg)))"
    using registered_all [of "fst k"] by (intro UN_I [of "fst k"])
  then show ?thesis
    by (simp add: getMetrics_def)
qed

lemma collectStoreMetrics_keeps:
  "value_of reg k \<noteq> None \<Longrightarrow> value_of (snd (collectStoreMetrics clk c reg)) k \<noteq> None"
  unfolding collectStoreMetrics_eq snd_conv
  by (intro gauge_set_keeps collectCustomerMetrics_keeps collectProductMetrics_keeps
      collectOrderMetrics_keeps)

lemma store_status_frame:
  assumes "\<forall>orders. fst (getAllOrders c (order_params clk)) = Inr orders \<longrightarrow>
             ls \<notin> (\<lambda>ord. status_labels c (status ord)) ` set orders"
  shows "value_of (snd (collectStoreMetrics clk c reg)) (ordersByStatusGauge, ls)
           = value_of reg (ordersByStatusGauge, ls)"
proof -
  have "value_of (snd (collectOrderMetrics clk c reg)) (ordersByStatusGauge, ls)
           = value_of reg (ordersByStatusGauge, ls)"
  proof (cases "fst (getAllOrders c (order_params clk))")
    case (Inl e)
    show ?thesis
      unfolding collectOrderMetrics_fail [OF Inl] snd_conv by (simp add: counter_inc_frame)
  next
    case (Inr orders)
    with assms have "ls \<notin> (\<lambda>ord. status_labels c (status ord)) ` set orders"
      by blast
    then show ?thesis
      unfolding collectOrderMetrics_ok [OF Inr] snd_conv by (rule order_writes_status_frame)
  qed
  then show ?thesis
    by (simp add: store_order_cells order_metrics_def)
qed

lemma store_top_frame:
  assumes "\<forall>orders. fst (getAllOrders c (order_params clk)) = Inr orders \<longrightarrow>
             ls \<notin> product_labels c ` set (topProducts (productSales (reduce_orders clk orders)))"
  shows "value_of (snd (collectStoreMetrics clk c reg)) (topProductsSoldGauge, ls)
           = value_of reg (topProductsSoldGauge, ls)"
proof -
  have "value_of (snd (collectOrderMetrics clk c reg)) (topProductsSoldGauge, ls)
           = value_of reg (topProductsSoldGauge, ls)"
  proof (cases "fst (getAllOrders c (order_params clk))")
    case (Inl e)
    show ?thesis
      unfolding collectOrderMetrics_fail [OF Inl] snd_conv by (simp add: counter_inc_frame)
  next
    case (Inr orders)
    with assms have "ls \<notin> product_labels c ` set (topProducts (productSales (reduce_orders clk orders)))"
      by blast
    then show ?thesis
      unfolding collectOrderMetrics_ok [OF Inr] snd_conv by (rule order_writes_top_frame)
  qed
  then show ?thesis
    by (simp add: store_order_cells order_metrics_def)
qed

text \<open>
  Claim C9. A collection removes no cell: every label set that held a value before a
  store's collection holds one after it and is rendered by \<^verbatim>\<open>getMetrics\<close>. In
  particular, an orders-by-status cell whose status none of this cycle's orders has, and
  a top-products cell whose product is not among this cycle's top ten, keep the value
  they had before the cycle and are still rendered with it (so does every cell of the
  two series when the order fetch fails). Only \<^verbatim>\<open>clearMetrics\<close> empties the registry.
\<close>

theorem stale_cells_persist:
  "reg' = snd (collectStoreMetrics clk c reg) \<Longrightarrow>
     (\<forall>k v. value_of reg k = Some v \<longrightarrow>
        (\<exists>v'. value_of reg' k = Some v' \<and> (metric_name (fst k), snd k, v') \<in> set (getMetrics reg')))
     \<and> (\<forall>s v. value_of reg (ordersByStatusGauge, status_labels c s) = Some v
              \<and> (\<forall>orders. fst (getAllOrders c (order_params clk)) = Inr orders \<longrightarrow>
                    s \<notin> status ` set orders) \<longrightarrow>
           value_of reg' (ordersByStatusGauge, status_labels c s) = Some v
           \<and> (metric_name ordersByStatusGauge, status_labels c s, v) \<in> set (getMetrics reg'))
     \<and> (\<forall>e v. value_of reg (topProductsSoldGauge, product_labels c e) = Some v
              \<and> (\<forall>orders. fst (getAllOrders c (order_params clk)) = Inr orders \<longrightarrow>
                    (fst e, fst (snd e)) \<notin> (\<lambda>e'. (fst e', fst (snd e')))
                       ` set (topProducts (productSales (reduce_orders clk orders)))) \<longrightarrow>
           value_of reg' (topProductsSoldGauge, product_labels c e) = Some v
           \<and> (metric_name topProductsSoldGauge, product_labels c e, v) \<in> set (getMetrics reg'))
     \<and> getMetrics (clearMetrics reg') = []
     \<and> (\<forall>k. value_of (clearMetrics reg') k = None)"
proof -
  assume r: "reg' = snd (collectStoreMetrics clk c reg)"
  have keeps: "\<exists>v'. value_of reg' k = Some v' \<and> (metric_name (fst k), snd k, v') \<in> set (getMetrics reg')"
    if "value_of reg k = Some v" for k v
  proof -
    from that have "value_of reg' k \<noteq> None"
      unfolding r by (intro collectStoreMetrics_keeps) simp
    then obtain v' where "value_of reg' k = Some v'" by auto
    then show ?thesis
      using getMetrics_member [of reg' k v'] by auto
  qed
  have stat: "value_of reg' (ordersByStatusGauge, status_labels c s) = Some v
           \<and> (metric_name ordersByStatusGauge, status_labels c s, v) \<in> set (getMetrics reg')"
    if "value_of reg (ordersByStatusGauge, status_labels c s) = Some v"
      and "\<forall>orders. fst (getAllOrders c (order_params clk)) = Inr orders \<longrightarrow> s \<notin> status ` set orders"
    for s v
  proof -
    from that(2) have "\<forall>orders. fst (getAllOrders c (order_params clk)) = Inr orders \<longrightarrow>
             status_labels c s \<notin> (\<lambda>ord. status_labels c (status ord)) ` set orders"
      by auto
    from store_status_frame [OF this] that(1)
    have "value_of reg' (ordersByStatusGauge, status_labels c s) = Some v"
      unfolding r by simp
    then show ?thesis
      using getMetrics_member [of reg' "(ordersByStatusGauge, status_labels c s)" v] by simp
  qed
  have top: "value_of reg' (topProductsSoldGauge, product_labels c e) = Some v
           \<and> (metric_name topProductsSoldGauge, product_labels c e, v) \<in> set (getMetrics reg')"
    if "value_of reg (topProductsSoldGauge, product_labels c e) = Some v"
      and "\<forall>orders. fst (getAllOrders c (order_params clk)) = Inr orders \<longrightarrow>
                    (fst e, fst (snd e)) \<notin> (\<lambda>e'. (fst e', fst (snd e')))
                       ` set (topProducts (productSales (reduce_orders clk orders)))"
    for e v
  proof -
    from that(2) have "\<forall>orders. fst (getAllOrders c (order_params clk)) = Inr orders \<longrightarrow>
        product_labels c e \<notin> product_labels c ` set (topProducts (productSales (reduce_orders clk orders)))"
    proof (intro allI impI notI)
      fix orders
      assume f: "fst (getAllOrders c (order_params clk)) = Inr orders"
        and "product_labels c e
               \<in> product_labels c ` set (topProducts (productSales (reduce_orders clk orders)))"
      then obtain e' where e': "e' \<in> set (topProducts (productSales (reduce_orders clk orders)))"
        "product_labels c e = product_labels c e'"
        by (elim imageE)
      from e'(2) have "(fst e, fst (snd e)) = (fst e', fst (snd e'))"
        by (simp add: product_labels_inject)
      with e'(1) have "(fst e, fst (snd e)) \<in> (\<lambda>e'. (fst e', fst (snd e')))
                       ` set (topProducts (productSales (reduce_orders clk orders)))"
        by (simp only: image_eqI)
      with that(2) f show False
        by blast
    qed
    from store_top_frame [OF this] that(1)
    have "value_of reg' (topProductsSoldGauge, product_labels c e) = Some v"
      unfolding r by simp
    then show ?thesis
      using getMetrics_member [of reg' "(topProductsSoldGauge, product_labels c e)" v] by simp
  qed
  have clear: "getMetrics (clearMetrics reg') = []" "value_of (clearMetrics reg') k = None" for k
    by (simp_all add: getMetrics_def clearMetrics_def value_of_def)
  from keeps have K: "\<forall>k v. value_of reg k = Some v \<longrightarrow>
        (\<exists>v'. value_of reg' k = Some v' \<and> (metric_name (fst k), snd k, v') \<in> set (getMetrics reg'))"
    by (intro allI impI)
  from stat have S: "\<forall>s v. value_of reg (ordersByStatusGauge, status_labels c s) = Some v
              \<and> (\<forall>orders. fst (getAllOrders c (order_params clk)) = Inr orders \<longrightarrow>
                    s \<notin> status ` set orders) \<longrightarrow>
           value_of reg' (ordersByStatusGauge, status_labels c s) = Some v
           \<and> (metric_name ordersByStatusGauge, status_labels c s, v) \<in> set (getMetrics reg')"
    by (intro allI impI) (elim conjE)
  from top have T: "\<forall>e v. value_of reg (topProductsSoldGauge, product_labels c e) = Some v
              \<and> (\<forall>orders. fst (getAllOrders c (order_params clk)) = Inr orders \<longrightarrow>
                    (fst e, fst (snd e)) \<notin> (\<lambda>e'. (fst e', fst (snd e')))
                       ` set (topProducts (productSales (reduce_orders clk orders)))) \<longrightarrow>
           value_of reg' (topProductsSoldGauge, product_labels c e) = Some v
           \<and> (metric_name topProductsSoldGauge, product_labels c e, v) \<in> set (getMetrics reg')"
    by (intro allI impI) (elim conjE)
  show ?thesis
    by (intro conjI K S T clear allI)
qed

lemma shop_reduce:
  "statusCounts (reduce_orders clock0 [order_done, order_open]) = [(''completed'', 1), (''pending'', 1)]"
  "topProducts (productSales (reduce_orders clock0 [order_done, order_open])) = [(7, ''Mug'', 2)]"
  "statusCounts (reduce_orders clock0 [order_open]) = [(''pending'', 1)]"
  "topProducts (productSales (reduce_orders clock0 [order_open])) = []"
  by (simp_all add: reduce_orders_def order_step_def Let_def order_acc0_def order_done_def
      order_open_def count_status_def line_step_def parseInt_or_0_def parseFloat_or_0_def
      topProducts_def)

lemma same_labels:
  "status_labels shop_open_only = status_labels shop"
  "product_labels shop_open_only = product_labels shop"
  by (simp_all add: fun_eq_iff status_labels_def product_labels_def store_labels_def
      shop_open_only_def)

lemma shop_first_cycle:
  "value_of (snd (collectStoreMetrics clock0 shop []))
      (ordersByStatusGauge, status_labels shop ''completed'') = Some 1"
  "value_of (snd (collectStoreMetrics clock0 shop []))
      (topProductsSoldGauge, product_labels shop (7, ''Mug'', 2)) = Some 2"
  "value_of (snd (collectStoreMetrics clock0 shop []))
      (totalOrdersGauge, status_labels shop ''all'') = Some 2"
  by (simp_all add: store_order_cells order_metrics_def collectOrderMetrics_ok [OF shop_orders]
      order_writes_def Let_def shop_reduce gauge_set_frame_metric value_of_gauge_set)

lemma shop_second_cycle_total:
  "value_of (snd (collectStoreMetrics clock0 shop_open_only reg))
      (totalOrdersGauge, status_labels shop_open_only ''all'') = Some 1"
  by (simp add: store_order_cells order_metrics_def collectOrderMetrics_ok [OF shop_open_only_orders]
      order_writes_def Let_def shop_reduce gauge_set_frame_metric value_of_gauge_set)

theorem stale_cells_persist_witness:
  "value_of (snd (collectStoreMetrics clock0 shop []))
      (totalOrdersGauge, status_labels shop ''all'') = Some 2
   \<and> value_of (snd (collectStoreMetrics clock0 shop_open_only (snd (collectStoreMetrics clock0 shop []))))
      (totalOrdersGauge, status_labels shop ''all'') = Some 1
   \<and> value_of (snd (collectStoreMetrics clock0 shop_open_only (snd (collectStoreMetrics clock0 shop []))))
      (ordersByStatusGauge, status_labels shop ''completed'') = Some 1
   \<and> (''woocommerce_orders_by_status'', status_labels shop ''completed'', 1)
        \<in> set (getMetrics (snd (collectStoreMetrics clock0 shop_open_only
                                  (snd (collectStoreMetrics clock0 shop [])))))
   \<and> value_of (snd (collectStoreMetrics clock0 shop_open_only (snd (collectStoreMetrics clock0 shop []))))
      (topProductsSoldGauge, product_labels shop (7, ''Mug'', 2)) = Some 2
   \<and> (''woocommerce_top_products_sold'', product_labels shop (7, ''Mug'', 2), 2)
        \<in> set (getMetrics (snd (collectStoreMetrics clock0 shop_open_only
                                  (snd (collectStoreMetrics clock0 shop [])))))
   \<and> getMetrics (clearMetrics (snd (collectStoreMetrics clock0 shop_open_only
                                  (snd (collectStoreMetrics clock0 shop []))))) = []"
proof -
  let ?reg1 = "snd (collectStoreMetrics clock0 shop [])"
  let ?reg2 = "snd (collectStoreMetrics clock0 shop_open_only ?reg1)"
  note inst = stale_cells_persist [of _ clock0 shop_open_only ?reg1, OF refl]
  have absent: "\<forall>orders. fst (getAllOrders shop_open_only (order_params clock0)) = Inr orders \<longrightarrow>
      ''completed'' \<notin> status ` set orders"
    by (simp add: shop_open_only_orders order_open_def)
  have dropped: "\<forall>orders. fst (getAllOrders shop_open_only (order_params clock0)) = Inr orders \<longrightarrow>
      (fst (7::nat, ''Mug'', 2::int), fst (snd (7::nat, ''Mug'', 2::int)))
        \<notin> (\<lambda>e'. (fst e', fst (snd e')))
            ` set (topProducts (productSales (reduce_orders clock0 orders)))"
    by (simp add: shop_open_only_orders shop_reduce)
  from inst have s: "value_of ?reg1 (ordersByStatusGauge, status_labels shop_open_only ''completed'') = Some 1
      \<and> (\<forall>orders. fst (getAllOrders shop_open_only (order_params clock0)) = Inr orders \<longrightarrow>
            ''completed'' \<notin> status ` set orders) \<longrightarrow>
      value_of ?reg2 (ordersByStatusGauge, status_labels shop_open_only ''completed'') = Some 1
      \<and> (metric_name ordersByStatusGauge, status_labels shop_open_only ''completed'', 1)
           \<in> set (getMetrics ?reg2)"
    by blast
  from inst have t: "value_of ?reg1 (topProductsSoldGauge, product_labels shop_open_only (7, ''Mug'', 2)) = Some 2
      \<and> (\<forall>orders. fst (getAllOrders shop_open_only (order_params clock0)) = Inr orders \<longrightarrow>
            (fst (7::nat, ''Mug'', 2::int), fst (snd (7::nat, ''Mug'', 2::int)))
              \<notin> (\<lambda>e'. (fst e', fst (snd e')))
                  ` set (topProducts (productSales (reduce_orders clock0 orders)))) \<longrightarrow>
      value_of ?reg2 (topProductsSoldGauge, product_labels shop_open_only (7, ''Mug'', 2)) = Some 2
      \<and> (metric_name topProductsSoldGauge, product_labels shop_open_only (7, ''Mug'', 2), 2)
           \<in> set (getMetrics ?reg2)"
    by blast
  from inst have c: "getMetrics (clearMetrics ?reg2) = []"
    by blast
  from s absent shop_first_cycle(1)
  have s': "value_of ?reg2 (ordersByStatusGauge, status_labels shop ''completed'') = Some 1
      \<and> (metric_name ordersByStatusGauge, status_labels shop ''completed'', 1) \<in> set (getMetrics ?reg2)"
    unfolding same_labels by blast
  from t dropped shop_first_cycle(2)
  have t': "value_of ?reg2 (topProductsSoldGauge, product_labels shop (7, ''Mug'', 2)) = Some 2
      \<and> (metric_name topProductsSoldGauge, product_labels shop (7, ''Mug'', 2), 2) \<in> set (getMetrics ?reg2)"
    unfolding same_labels by blast
  show ?thesis
    using s' t' c shop_first_cycle(3) shop_second_cycle_total [of ?reg1]
    unfolding same_labels by simp
qed

end
